theory Spec2Isabelle
  imports Main
begin

section \<open>Python strings and paths\<close>

text \<open>
  Python \<open>str\<close> values are modelled as \<open>string\<close>. The functions below are the
  string methods the three programs call: \<open>startswith\<close>, \<open>endswith\<close>, \<open>in\<close>,
  \<open>lower\<close>, \<open>split\<close>, \<open>join\<close>, \<open>strip\<close> and \<open>rfind\<close>.
\<close>

type_synonym path = string

fun startswith :: "string \<Rightarrow> string \<Rightarrow> bool" where
  "startswith s [] = True"
| "startswith [] (c # p) = False"
| "startswith (d # s) (c # p) = (d = c \<and> startswith s p)"

definition endswith :: "string \<Rightarrow> string \<Rightarrow> bool" where
  "endswith s p = startswith (rev s) (rev p)"

text \<open>\<open>str_in sub s\<close> is Python's \<open>sub in s\<close>.\<close>

fun str_in :: "string \<Rightarrow> string \<Rightarrow> bool" where
  "str_in sub [] = (sub = [])"
| "str_in sub (c # s) = (startswith (c # s) sub \<or> str_in sub s)"

definition lower_char :: "char \<Rightarrow> char" where
  "lower_char c =
     (case map_of (zip ''ABCDEFGHIJKLMNOPQRSTUVWXYZ'' ''abcdefghijklmnopqrstuvwxyz'') c of
        Some d \<Rightarrow> d
      | None \<Rightarrow> c)"

definition lower :: "string \<Rightarrow> string" where
  "lower s = map lower_char s"

text \<open>\<open>split_on c s\<close> is \<open>s.split(c)\<close> for a one-character separator.\<close>

fun split_on :: "char \<Rightarrow> string \<Rightarrow> string list" where
  "split_on c [] = [[]]"
| "split_on c (x # xs) =
     (if x = c then [] # split_on c xs
      else (case split_on c xs of
              [] \<Rightarrow> [[x]]
            | w # ws \<Rightarrow> (x # w) # ws))"

text \<open>\<open>join_str sep xs\<close> is \<open>sep.join(xs)\<close>.\<close>

fun join_str :: "string \<Rightarrow> string list \<Rightarrow> string" where
  "join_str sep [] = []"
| "join_str sep [x] = x"
| "join_str sep (x # y # ys) = x @ sep @ join_str sep (y # ys)"

text \<open>\<open>last3 xs\<close> is the slice \<open>xs[-3:]\<close>.\<close>

definition last3 :: "'a list \<Rightarrow> 'a list" where
  "last3 xs = drop (length xs - 3) xs"

definition is_space :: "char \<Rightarrow> bool" where
  "is_space c = (c \<in> set [CHR '' '', CHR 0x09, CHR 0x0A, CHR 0x0B, CHR 0x0C, CHR 0x0D])"

definition strip :: "string \<Rightarrow> string" where
  "strip s = rev (dropWhile is_space (rev (dropWhile is_space s)))"

text \<open>\<open>rfind c s\<close> is \<open>s.rfind(c)\<close>: the last index of the character, or \<open>-1\<close>.\<close>

definition rfind :: "char \<Rightarrow> string \<Rightarrow> int" where
  "rfind c s =
     (if c \<in> set s then int (length s) - 1 - int (length (takeWhile (\<lambda>x. x \<noteq> c) (rev s)))
      else - 1)"

subsection \<open>\<open>os.path\<close> on POSIX\<close>

text \<open>
  The programs call \<open>os.path.join\<close>, \<open>splitext\<close>, \<open>dirname\<close> and \<open>basename\<close>. They are
  modelled as \<open>posixpath\<close> defines them (separator \<open>/\<close>, extension separator \<open>.\<close>).
\<close>

definition path_join :: "path \<Rightarrow> path \<Rightarrow> path" where
  "path_join a b =
     (if startswith b ''/'' then b
      else if a = [] \<or> endswith a ''/'' then a @ b
      else a @ ''/'' @ b)"

text \<open>
  The loop of \<open>genericpath._splitext\<close> that skips the leading dots of the file name:
  it answers whether some character in \<open>p[filenameIndex:dotIndex]\<close> is not a dot.
\<close>

function skip_dots :: "string \<Rightarrow> nat \<Rightarrow> nat \<Rightarrow> bool" where
  "skip_dots p filenameIndex dotIndex =
     (if filenameIndex < dotIndex then
        (if p ! filenameIndex \<noteq> CHR ''.'' then True
         else skip_dots p (Suc filenameIndex) dotIndex)
      else False)"
  by pat_completeness auto
termination
  by (relation "measure (\<lambda>(p, i, d). d - i)") auto

definition splitext :: "path \<Rightarrow> path \<times> string" where
  "splitext p =
     (let sepIndex = rfind CHR ''/'' p;
          dotIndex = rfind CHR ''.'' p
      in if dotIndex > sepIndex \<and> skip_dots p (nat (sepIndex + 1)) (nat dotIndex)
         then (take (nat dotIndex) p, drop (nat dotIndex) p)
         else (p, []))"

definition basename :: "path \<Rightarrow> string" where
  "basename p = drop (nat (rfind CHR ''/'' p + 1)) p"

definition rstrip_sep :: "string \<Rightarrow> string" where
  "rstrip_sep s = rev (dropWhile (\<lambda>c. c = CHR ''/'') (rev s))"

definition dirname :: "path \<Rightarrow> path" where
  "dirname p =
     (let head = take (nat (rfind CHR ''/'' p + 1)) p
      in if head \<noteq> [] \<and> head \<noteq> replicate (length head) CHR ''/'' then rstrip_sep head
         else head)"

declare skip_dots.simps [simp del]

section \<open>The CAF to WAV converter (\<open>caf_to_wav_gui.py\<close>)\<close>

subsection \<open>The operating system and the encoder, as seen by the program\<close>

text \<open>
  The file system, \<open>os.makedirs\<close>, \<open>os.path.relpath\<close>, \<open>os.walk\<close> and the FFmpeg
  subprocess are outside the program. They are parameters: a record of functions over an
  arbitrary world \<open>'w\<close>. A call that can raise returns the exception's text; a
  subprocess either raises or completes with a return code and its standard error.
\<close>

datatype proc = Raised string | Completed int string

record 'w caf_sys =
  path_exists :: "'w \<Rightarrow> path \<Rightarrow> bool"
  makedirs :: "path \<Rightarrow> 'w \<Rightarrow> string option \<times> 'w"
  relpath :: "path \<Rightarrow> path \<Rightarrow> path"
  os_walk :: "'w \<Rightarrow> path \<Rightarrow> (path \<times> string list \<times> string list) list"
  subprocess_run :: "string list \<Rightarrow> 'w \<Rightarrow> proc \<times> 'w"

text \<open>
  What the program did to the outside is recorded next to the world: each poll of the
  cancellation flag, each \<open>os.makedirs\<close> and each FFmpeg invocation, in order.
\<close>

datatype event = Poll bool | MakeDirs path | FFmpeg "string list"

type_synonym 'w st = "'w \<times> event list"

text \<open>
  The fields of \<open>self\<close> that the conversion reads. They are fixed during a run, except
  \<open>conversion_running\<close>, which the loop polls and which is modelled with the loop. Calls on
  widgets (the log, the progress bar, message boxes) are left out, and with them the
  exceptions they could raise; \<open>os.path.relpath\<close> is taken to return a path.
\<close>

record caf_gui =
  selected_directory :: path
  output_directory :: "path option"
  ffmpeg_available :: bool
  overwrite_var :: bool
  trim_silence_var :: bool
  bit_depth_var :: string

text \<open>A conversion returns \<open>(wav_path or None, status, info)\<close>.\<close>

type_synonym result = "path option \<times> string \<times> string"

subsection \<open>\<open>find_caf_files\<close>\<close>

definition find_caf_files :: "(path \<times> string list \<times> string list) list \<Rightarrow> path list" where
  "find_caf_files walk =
     concat (map (\<lambda>(root, dirs, files).
       map (path_join root) (filter (\<lambda>file. endswith (lower file) ''.caf'') files)) walk)"

subsection \<open>\<open>convert_with_ffmpeg\<close>\<close>

definition ffmpeg_cmd :: "caf_gui \<Rightarrow> path \<Rightarrow> path \<Rightarrow> string \<Rightarrow> bool \<Rightarrow> string list" where
  "ffmpeg_cmd self caf_path wav_path bit_depth trim_silence =
     (let codec = (if bit_depth = ''24'' then ''pcm_s24le'' else ''pcm_f32le'');
          filters = (if trim_silence
                     then [''silenceremove=start_periods=1:start_duration=0:start_threshold=-50dB'']
                     else [])
      in [''ffmpeg'', ''-i'', caf_path]
         @ (if filters \<noteq> [] then [''-af'', join_str '','' filters] else [])
         @ [''-acodec'', codec, if overwrite_var self then ''-y'' else ''-n'', wav_path])"

definition duration_info :: "string \<Rightarrow> string" where
  "duration_info stderr =
     (if str_in ''Duration:'' stderr then
        (case filter (str_in ''Duration:'') (split_on CHR 0x0A stderr) of
           [] \<Rightarrow> []
         | line # _ \<Rightarrow> strip line)
      else [])"

text \<open>
  \<open>error_msg = result.stderr.split('\n')[-3:] if result.stderr else "Unknown error"\<close>,
  then \<open>' '.join(error_msg)\<close>: joining the string \<open>"Unknown error"\<close> joins its characters.
\<close>

definition error_msg :: "string \<Rightarrow> string list" where
  "error_msg stderr =
     (if stderr \<noteq> [] then last3 (split_on CHR 0x0A stderr)
      else map (\<lambda>c. [c]) ''Unknown error'')"

definition convert_with_ffmpeg ::
  "'w caf_sys \<Rightarrow> caf_gui \<Rightarrow> path \<Rightarrow> path \<Rightarrow> string \<Rightarrow> bool \<Rightarrow> 'w st \<Rightarrow> result \<times> 'w st" where
  "convert_with_ffmpeg sys self caf_path wav_path bit_depth trim_silence s =
     (let cmd = ffmpeg_cmd self caf_path wav_path bit_depth trim_silence;
          ran = subprocess_run sys cmd (fst s);
          s' = (snd ran, snd s @ [FFmpeg cmd])
      in case fst ran of
           Raised e \<Rightarrow> ((None, ''Exception: '' @ e, []), s')
         | Completed returncode stderr \<Rightarrow>
             if returncode = 0 then ((Some wav_path, ''success'', duration_info stderr), s')
             else if str_in ''already exists'' stderr
               then ((None, ''skipped (already exists)'', []), s')
             else ((None, ''FFmpeg error: '' @ join_str '' '' (error_msg stderr), []), s'))"

subsection \<open>\<open>convert_caf_to_wav\<close>\<close>

text \<open>
  Lines 262 to 269: the output path. With an output directory (a non-empty string) the
  path relative to the selected directory is re-rooted there; without one the file sits
  beside its source.
\<close>

definition plan_wav_path ::
  "'w caf_sys \<Rightarrow> caf_gui \<Rightarrow> path \<Rightarrow> path option \<Rightarrow> path" where
  "plan_wav_path sys self caf_path output_base_dir =
     (case output_base_dir of
        Some d \<Rightarrow>
          if d \<noteq> [] then
            (let rel_path = relpath sys caf_path (selected_directory self);
                 wav_filename = fst (splitext rel_path) @ ''.wav''
             in path_join d wav_filename)
          else fst (splitext caf_path) @ ''.wav''
      | None \<Rightarrow> fst (splitext caf_path) @ ''.wav'')"

definition has_output_dir :: "path option \<Rightarrow> bool" where
  "has_output_dir output_base_dir = (case output_base_dir of Some d \<Rightarrow> d \<noteq> [] | None \<Rightarrow> False)"

text \<open>
  The first statement of the \<open>try\<close> block: the output path, and with an output directory
  the call of \<open>os.makedirs\<close>, whose exception text is returned when it raises.
\<close>

definition prepare_output ::
  "'w caf_sys \<Rightarrow> caf_gui \<Rightarrow> path \<Rightarrow> path option \<Rightarrow> 'w st \<Rightarrow> string option \<times> path \<times> 'w st" where
  "prepare_output sys self caf_path output_base_dir s =
     (let wav_path = plan_wav_path sys self caf_path output_base_dir
      in if has_output_dir output_base_dir
         then (case makedirs sys (dirname wav_path) (fst s) of
                 (raised, w') \<Rightarrow> (raised, wav_path, (w', snd s @ [MakeDirs (dirname wav_path)])))
         else (None, wav_path, s))"

definition convert_caf_to_wav ::
  "'w caf_sys \<Rightarrow> caf_gui \<Rightarrow> path \<Rightarrow> string \<Rightarrow> path option \<Rightarrow> bool \<Rightarrow> 'w st \<Rightarrow> result \<times> 'w st" where
  "convert_caf_to_wav sys self caf_path bit_depth output_base_dir trim_silence s =
     (case prepare_output sys self caf_path output_base_dir s of
        (Some e, wav_path, s') \<Rightarrow> ((None, ''error: '' @ e, []), s')
      | (None, wav_path, s') \<Rightarrow>
          if path_exists sys (fst s') wav_path \<and> \<not> overwrite_var self
            then ((Some wav_path, ''skipped (already exists)'', []), s')
          else if \<not> ffmpeg_available self
            then ((None, ''error: FFmpeg not available'', []), s')
          else convert_with_ffmpeg sys self caf_path wav_path bit_depth trim_silence s')"

subsection \<open>\<open>conversion_thread\<close>\<close>

text \<open>
  The loop's variables: the three counters, the progress bar's value (set to \<open>i + 1\<close>
  after each job), the per-file results in order, and whether the loop left through the
  cancellation branch. \<open>running i\<close> is the value of \<open>self.conversion_running\<close> that the
  poll before job \<open>i\<close> reads: another thread writes the flag.
\<close>

record 'w run =
  converted_count :: nat
  skipped_count :: nat
  error_count :: nat
  progress_value :: nat
  outcomes :: "(path \<times> result) list"
  cancelled :: bool
  sys_state :: "'w st"

definition count_status :: "string \<Rightarrow> 'w run \<Rightarrow> 'w run" where
  "count_status status r =
     (if status = ''success'' then r\<lparr>converted_count := converted_count r + 1\<rparr>
      else if startswith status ''skipped'' then r\<lparr>skipped_count := skipped_count r + 1\<rparr>
      else r\<lparr>error_count := error_count r + 1\<rparr>)"

text \<open>The body of the loop for one job, lines 328 to 358.\<close>

definition run_job ::
  "'w caf_sys \<Rightarrow> caf_gui \<Rightarrow> string \<Rightarrow> bool \<Rightarrow> nat \<Rightarrow> path \<Rightarrow> 'w run \<Rightarrow> 'w run" where
  "run_job sys self bit_depth trim_silence i caf_path r =
     (let res = convert_caf_to_wav sys self caf_path bit_depth
                  (output_directory self) trim_silence (sys_state r);
          status = fst (snd (fst res))
      in (count_status status r)
           \<lparr>progress_value := i + 1,
            outcomes := outcomes r @ [(caf_path, fst res)],
            sys_state := snd res\<rparr>)"

definition record_poll :: "bool \<Rightarrow> 'w run \<Rightarrow> 'w run" where
  "record_poll b r = r\<lparr>sys_state := (fst (sys_state r), snd (sys_state r) @ [Poll b])\<rparr>"

fun conversion_loop ::
  "'w caf_sys \<Rightarrow> caf_gui \<Rightarrow> (nat \<Rightarrow> bool) \<Rightarrow> string \<Rightarrow> bool \<Rightarrow> nat \<Rightarrow> path list \<Rightarrow> 'w run \<Rightarrow> 'w run" where
  "conversion_loop sys self running bit_depth trim_silence i [] r = r"
| "conversion_loop sys self running bit_depth trim_silence i (caf_path # rest) r =
     (if \<not> running i then (record_poll False r)\<lparr>cancelled := True\<rparr>
      else conversion_loop sys self running bit_depth trim_silence (Suc i) rest
             (run_job sys self bit_depth trim_silence i caf_path (record_poll True r)))"

datatype 'w thread_end = FFmpegRequired | NoFiles | Finished "'w run"

definition start_run :: "'w st \<Rightarrow> 'w run" where
  "start_run s =
     \<lparr>converted_count = 0, skipped_count = 0, error_count = 0, progress_value = 0,
      outcomes = [], cancelled = False, sys_state = s\<rparr>"

definition conversion_thread ::
  "'w caf_sys \<Rightarrow> caf_gui \<Rightarrow> (nat \<Rightarrow> bool) \<Rightarrow> 'w st \<Rightarrow> 'w thread_end" where
  "conversion_thread sys self running s =
     (if \<not> ffmpeg_available self then FFmpegRequired
      else
        (let caf_files = find_caf_files (os_walk sys (fst s) (selected_directory self))
         in if caf_files = [] then NoFiles
            else Finished (conversion_loop sys self running (bit_depth_var self)
                   (trim_silence_var self) 0 caf_files (start_run s))))"

text \<open>
  The number of jobs the loop attempts: the polls before jobs \<open>i, i + 1, ...\<close> that read
  \<open>True\<close> until the first one that reads \<open>False\<close>, at most \<open>n\<close>.
\<close>

fun attempted :: "(nat \<Rightarrow> bool) \<Rightarrow> nat \<Rightarrow> nat \<Rightarrow> nat" where
  "attempted running i 0 = 0"
| "attempted running i (Suc n) = (if running i then Suc (attempted running (Suc i) n) else 0)"


fun is_ffmpeg :: "event \<Rightarrow> bool" where
  "is_ffmpeg (FFmpeg cmd) = True"
| "is_ffmpeg (Poll b) = False"
| "is_ffmpeg (MakeDirs d) = False"

section \<open>The command-line converter (\<open>caf_to_wav32.py\<close>)\<close>

text \<open>
  \<open>main\<close> plans \<open>caf.parent / "32bit_wav" / (caf.stem + ".wav")\<close>. A \<open>pathlib\<close> path is
  modelled by its parts; \<open>parent\<close> drops the last part and \<open>stem\<close> is the last part
  without its suffix.
\<close>

definition stem :: "string \<Rightarrow> string" where
  "stem name =
     (let i = rfind CHR ''.'' name
      in if 0 < i \<and> i < int (length name) - 1 then take (nat i) name else name)"

definition cli_out_path :: "string list \<Rightarrow> string list" where
  "cli_out_path caf =
     (let out_dir = butlast caf @ [''32bit_wav'']
      in out_dir @ [stem (last caf) @ ''.wav''])"

section \<open>The bit depth converter (\<open>wav_bit_depth_converter.py\<close>)\<close>

text \<open>
  The \<open>soundfile\<close> library and the file system are parameters again. \<open>sf.info\<close> raises
  or gives the subtype; \<open>sf.read\<close> raises or gives the samples \<open>'d\<close> and the sample
  rate; \<open>sf.write\<close> and \<open>os.makedirs\<close> can raise; \<open>os.listdir\<close> can raise.
\<close>

record ('w, 'd) wav_sys =
  sf_info :: "'w \<Rightarrow> path \<Rightarrow> string + string"
  sf_read :: "'w \<Rightarrow> path \<Rightarrow> string + 'd \<times> nat"
  sf_write :: "path \<Rightarrow> 'd \<Rightarrow> nat \<Rightarrow> string \<Rightarrow> 'w \<Rightarrow> string option \<times> 'w"
  w_makedirs :: "path \<Rightarrow> 'w \<Rightarrow> string option \<times> 'w"
  w_walk :: "'w \<Rightarrow> path \<Rightarrow> (path \<times> string list \<times> string list) list"
  w_listdir :: "'w \<Rightarrow> path \<Rightarrow> string + string list"

datatype wav_event =
  Log string | SfInfo path | SfRead path | WMakeDirs path | SfWrite path string

type_synonym 'w wst = "'w \<times> wav_event list"

record wav_gui =
  folder_path :: path
  include_subdirs :: bool
  convert_to_24bit :: bool
  convert_to_16bit :: bool
  is_processing :: bool

subsection \<open>\<open>find_wav_files\<close>\<close>

definition find_wav_files ::
  "('w, 'd) wav_sys \<Rightarrow> 'w \<Rightarrow> path \<Rightarrow> bool \<Rightarrow> string + path list" where
  "find_wav_files sys w folder subdirs =
     (if subdirs then
        Inr (concat (map (\<lambda>(root, dirs, files).
          map (path_join root) (filter (\<lambda>file. endswith (lower file) ''.wav'') files))
          (w_walk sys w folder)))
      else
        (case w_listdir sys w folder of
           Inl e \<Rightarrow> Inl e
         | Inr files \<Rightarrow>
             Inr (map (path_join folder) (filter (\<lambda>file. endswith (lower file) ''.wav'') files))))"

subsection \<open>\<open>get_bit_depth\<close>\<close>

definition subtype_bits :: "string \<Rightarrow> int" where
  "subtype_bits subtype =
     (if str_in ''PCM_32'' subtype \<or> str_in ''FLOAT'' subtype then 32
      else if str_in ''PCM_24'' subtype then 24
      else if str_in ''PCM_16'' subtype then 16
      else if str_in ''PCM_8'' subtype then 8
      else 0)"

definition get_bit_depth :: "('w, 'd) wav_sys \<Rightarrow> path \<Rightarrow> 'w wst \<Rightarrow> int \<times> 'w wst" where
  "get_bit_depth sys file_path s =
     (case sf_info sys (fst s) file_path of
        Inr subtype \<Rightarrow> (subtype_bits subtype, (fst s, snd s @ [SfInfo file_path]))
      | Inl e \<Rightarrow>
          (0, (fst s, snd s @ [SfInfo file_path,
                 Log (''Error reading '' @ file_path @ '': '' @ e)])))"

subsection \<open>\<open>convert_file\<close>\<close>

text \<open>The tail of \<open>convert_file\<close>: create the directory, write the file.\<close>

definition write_output ::
  "('w, 'd) wav_sys \<Rightarrow> path \<Rightarrow> path \<Rightarrow> 'd \<Rightarrow> nat \<Rightarrow> string \<Rightarrow> 'w wst \<Rightarrow> bool \<times> 'w wst" where
  "write_output sys input_path output_path data samplerate subtype s =
     (let made = w_makedirs sys (dirname output_path) (fst s);
          tr = snd s @ [WMakeDirs (dirname output_path)]
      in case fst made of
           Some e \<Rightarrow>
             (False, (snd made, tr @ [Log (''Error converting '' @ input_path @ '': '' @ e)]))
         | None \<Rightarrow>
             (let wrote = sf_write sys output_path data samplerate subtype (snd made);
                  tr' = tr @ [SfWrite output_path subtype]
              in case fst wrote of
                   Some e \<Rightarrow>
                     (False,
                      (snd wrote, tr' @ [Log (''Error converting '' @ input_path @ '': '' @ e)]))
                 | None \<Rightarrow> (True, (snd wrote, tr'))))"

definition convert_file ::
  "('w, 'd) wav_sys \<Rightarrow> path \<Rightarrow> path \<Rightarrow> int \<Rightarrow> 'w wst \<Rightarrow> bool \<times> 'w wst" where
  "convert_file sys input_path output_path target_bits s =
     (let tr = snd s @ [SfRead input_path]
      in case sf_read sys (fst s) input_path of
           Inl e \<Rightarrow>
             (False, (fst s, tr @ [Log (''Error converting '' @ input_path @ '': '' @ e)]))
         | Inr (data, samplerate) \<Rightarrow>
             if target_bits = 24
               then write_output sys input_path output_path data samplerate ''PCM_24'' (fst s, tr)
             else if target_bits = 16
               then write_output sys input_path output_path data samplerate ''PCM_16'' (fst s, tr)
             else (False, (fst s, tr)))"

subsection \<open>\<open>process_files\<close>\<close>

text \<open>
  Lines 215 to 220: keep the files whose bit depth reads as 32. Of the messages written
  to the log only those of the two \<open>except\<close> branches are modelled.
\<close>

fun filter_32bit ::
  "('w, 'd) wav_sys \<Rightarrow> path list \<Rightarrow> 'w wst \<Rightarrow> path list \<times> 'w wst" where
  "filter_32bit sys [] s = ([], s)"
| "filter_32bit sys (wav_file # rest) s =
     (case get_bit_depth sys wav_file s of
        (bit_depth, s') \<Rightarrow>
          (case filter_32bit sys rest s' of
             (files_32bit, s'') \<Rightarrow>
               (if bit_depth = 32 then wav_file # files_32bit else files_32bit, s'')))"

text \<open>
  The conversion loop's variables: the progress counter and, for each call of
  \<open>convert_file\<close>, its source, destination, target and result.
\<close>

record 'w wav_run =
  total_conversions :: nat
  current_conversion :: nat
  conversions :: "(path \<times> path \<times> int \<times> bool) list"
  wav_state :: "'w wst"

definition convert_to ::
  "('w, 'd) wav_sys \<Rightarrow> path \<Rightarrow> string \<Rightarrow> int \<Rightarrow> 'w wav_run \<Rightarrow> 'w wav_run" where
  "convert_to sys wav_file subdir bits r =
     (let file_name = basename wav_file;
          file_dir = dirname wav_file;
          output_dir = path_join file_dir subdir;
          output_path = path_join output_dir file_name;
          conv = convert_file sys wav_file output_path bits (wav_state r)
      in r\<lparr>current_conversion := current_conversion r + 1,
            conversions := conversions r @ [(wav_file, output_path, bits, fst conv)],
            wav_state := snd conv\<rparr>)"

fun process_loop ::
  "('w, 'd) wav_sys \<Rightarrow> wav_gui \<Rightarrow> path list \<Rightarrow> 'w wav_run \<Rightarrow> 'w wav_run" where
  "process_loop sys self [] r = r"
| "process_loop sys self (wav_file # rest) r =
     (let r1 = (if convert_to_24bit self then convert_to sys wav_file ''24bit'' 24 r else r);
          r2 = (if convert_to_16bit self then convert_to sys wav_file ''16bit'' 16 r1 else r1)
      in process_loop sys self rest r2)"

datatype 'w wav_end =
  NoWavFiles | No32BitFiles "'w wst" | Processed "path list" "'w wav_run" | ProcessingError string

definition process_files ::
  "('w, 'd) wav_sys \<Rightarrow> wav_gui \<Rightarrow> 'w wst \<Rightarrow> 'w wav_end \<times> wav_gui" where
  "process_files sys self s =
     (case find_wav_files sys (fst s) (folder_path self) (include_subdirs self) of
        Inl e \<Rightarrow> ProcessingError e
      | Inr wav_files \<Rightarrow>
          if wav_files = [] then NoWavFiles
          else
            (let found = filter_32bit sys wav_files s;
                 files_32bit = fst found
             in if files_32bit = [] then No32BitFiles (snd found)
                else
                  (let total = length files_32bit *
                         ((if convert_to_24bit self then 1 else 0)
                          + (if convert_to_16bit self then 1 else 0))
                   in Processed files_32bit
                        (process_loop sys self files_32bit
                           \<lparr>total_conversions = total, current_conversion = 0,
                            conversions = [], wav_state = snd found\<rparr>))),
      self\<lparr>is_processing := False\<rparr>)"

section \<open>Simulated systems for concrete runs\<close>

text \<open>
  Two small instances of the parameters, on which the model runs by evaluation. The CAF
  world is the list of paths that exist. FFmpeg answers \<open>fails input\<close> when that is
  given; otherwise it refuses an existing output under \<open>-n\<close> and else creates the
  output. Directories are implicit, and \<open>os.walk\<close> lists one flat directory.
\<close>

definition sim_sys :: "(path \<Rightarrow> proc option) \<Rightarrow> (path list) caf_sys" where
  "sim_sys fails =
     \<lparr>path_exists = (\<lambda>w p. p \<in> set w),
      makedirs = (\<lambda>d w. (None, w)),
      relpath = (\<lambda>p start. drop (Suc (length start)) p),
      os_walk = (\<lambda>w d. [(d, [], map basename (filter (\<lambda>p. dirname p = d) w))]),
      subprocess_run = (\<lambda>cmd w.
        case fails (cmd ! 2) of
          Some r \<Rightarrow> (r, w)
        | None \<Rightarrow>
            if last cmd \<in> set w \<and> ''-n'' \<in> set cmd
            then (Completed 1 (''File '' @ last cmd @ '' already exists. Exiting.''), w)
            else (Completed 0 ''  Duration: 00:00:01.00'', w @ [last cmd]))\<rparr>"

text \<open>
  The WAV world maps a path to a subtype, samples and a sample rate; \<open>sf.write\<close>
  replaces the entry of its path.
\<close>

type_synonym sim_wav_world = "(path \<times> string \<times> nat list \<times> nat) list"

definition sim_wav :: "(sim_wav_world, nat list) wav_sys" where
  "sim_wav =
     \<lparr>sf_info = (\<lambda>w p. case map_of w p of
                   None \<Rightarrow> Inl ''Error opening file''
                 | Some (subtype, data, rate) \<Rightarrow> Inr subtype),
      sf_read = (\<lambda>w p. case map_of w p of
                   None \<Rightarrow> Inl ''Error opening file''
                 | Some (subtype, data, rate) \<Rightarrow> Inr (data, rate)),
      sf_write = (\<lambda>p data rate subtype w.
                   (None, filter (\<lambda>e. fst e \<noteq> p) w @ [(p, subtype, data, rate)])),
      w_makedirs = (\<lambda>d w. (None, w)),
      w_walk = (\<lambda>w d. [(d, [], map basename (filter (\<lambda>p. dirname p = d) (map fst w)))]),
      w_listdir = (\<lambda>w d. Inr (map basename (filter (\<lambda>p. dirname p = d) (map fst w))))\<rparr>"

text \<open>A configuration of the CAF converter: no output directory, overwrite disabled.\<close>

definition sim_gui :: caf_gui where
  "sim_gui =
     \<lparr>selected_directory = ''d'', output_directory = None, ffmpeg_available = True,
      overwrite_var = False, trim_silence_var = True, bit_depth_var = ''24''\<rparr>"

text \<open>
  A configuration and a folder of the bit depth converter: one float file and one 16-bit
  file, both targets requested. The flag \<open>is_processing\<close> is off.
\<close>

definition sim_wav_gui :: wav_gui where
  "sim_wav_gui =
     \<lparr>folder_path = ''d'', include_subdirs = False, convert_to_24bit = True,
      convert_to_16bit = True, is_processing = False\<rparr>"

definition sim_wav_world :: sim_wav_world where
  "sim_wav_world =
     [(''d/a.wav'', ''FLOAT'', [5, 7], 48000), (''d/b.wav'', ''PCM_16'', [3], 44100)]"


text \<open>A folder of the bit depth converter in which the 24-bit output already exists.\<close>

definition sim_wav_existing :: sim_wav_world where
  "sim_wav_existing =
     [(''d/a.wav'', ''FLOAT'', [5, 7], 48000), (''d/24bit/a.wav'', ''PCM_16'', [9], 8000)]"

text \<open>
  The two outcomes of \<open>subprocess.run\<close> that \<open>convert_with_ffmpeg\<close> reports as an error, and
  the status text it returns for them: an exception, or a non-zero return code whose standard
  error does not contain \<open>already exists\<close>.
\<close>

definition failure_status :: "proc \<Rightarrow> string" where
  "failure_status res =
     (case res of
        Raised e \<Rightarrow> ''Exception: '' @ e
      | Completed returncode stderr \<Rightarrow> ''FFmpeg error: '' @ join_str '' '' (error_msg stderr))"

definition adapter_failed :: "proc \<Rightarrow> bool" where
  "adapter_failed res =
     (case res of
        Raised e \<Rightarrow> True
      | Completed returncode stderr \<Rightarrow> returncode \<noteq> 0 \<and> \<not> str_in ''already exists'' stderr)"

text \<open>
  Two encoders that fail: one exits with code 1 and four lines of diagnostics on the first
  file, the other always refuses with FFmpeg's message for an existing output.
\<close>

definition sim_stderr :: string where
  "sim_stderr = ''Input #0, caf'' @ [CHR 0x0A] @ ''Stream mapping:'' @ [CHR 0x0A]
     @ ''d/a.caf: Invalid data found'' @ [CHR 0x0A] @ ''Conversion failed!''"

definition sim_fail :: "path \<Rightarrow> proc option" where
  "sim_fail p = (if p = ''d/a.caf'' then Some (Completed 1 sim_stderr) else None)"

definition sim_refuse :: "path \<Rightarrow> proc option" where
  "sim_refuse p = Some (Completed 1 ''File d/a.wav already exists. Exiting.'')"


text \<open>
  What a second run needs of the outside: an FFmpeg call that returns code 0 leaves its
  output path existing, neither FFmpeg nor \<open>os.makedirs\<close> removes an existing path, and
  \<open>os.makedirs\<close> (called with \<open>exist_ok=True\<close>) does not raise for the directory of an
  existing path.
\<close>

definition adapter_contract :: "'w caf_sys \<Rightarrow> bool" where
  "adapter_contract sys =
     ((\<forall>cmd w e. fst (subprocess_run sys cmd w) = Completed 0 e \<longrightarrow>
         path_exists sys (snd (subprocess_run sys cmd w)) (last cmd))
      \<and> (\<forall>cmd w p. path_exists sys w p \<longrightarrow> path_exists sys (snd (subprocess_run sys cmd w)) p)
      \<and> (\<forall>d w p. path_exists sys w p \<longrightarrow> path_exists sys (snd (makedirs sys d w)) p)
      \<and> (\<forall>w p. path_exists sys w p \<longrightarrow> fst (makedirs sys (dirname p) w) = None))"

text \<open>The folder of the bit depth converter after one run.\<close>

definition sim_wav_after :: sim_wav_world where
  "sim_wav_after =
     [(''d/a.wav'', ''FLOAT'', [5, 7], 48000), (''d/b.wav'', ''PCM_16'', [3], 44100),
      (''d/24bit/a.wav'', ''PCM_24'', [5, 7], 48000),
      (''d/16bit/a.wav'', ''PCM_16'', [5, 7], 48000)]"

section \<open>Checks of the string and path functions\<close>

lemma splitext_test: "splitext ''a/b.c/x.tar.caf'' = (''a/b.c/x.tar'', ''.caf'')
  \<and> splitext ''a/.caf'' = (''a/.caf'', '''') \<and> splitext ''a.b/c'' = (''a.b/c'', '''')
  \<and> dirname ''/x/y//z.caf'' = ''/x/y'' \<and> basename ''/x/y//z.caf'' = ''z.caf''
  \<and> dirname ''z'' = '''' \<and> dirname ''/z'' = ''/''
  \<and> lower ''A.CaF'' = ''a.caf'' \<and> split_on CHR ''a'' ''banana'' = [''b'', ''n'', ''n'', '''']
  \<and> strip ''  x y  '' = ''x y''"
  by (simp add: splitext_def rfind_def basename_def dirname_def rstrip_sep_def lower_def
      lower_char_def strip_def is_space_def skip_dots.simps)


lemmas path_defs = splitext_def rfind_def basename_def dirname_def rstrip_sep_def path_join_def
  endswith_def lower_def lower_char_def skip_dots.simps

section \<open>Runs of the simulated CAF system\<close>

lemma sim_sys_simps:
  "path_exists (sim_sys f) w p = (p \<in> set w)"
  "makedirs (sim_sys f) d w = (None, w)"
  "relpath (sim_sys f) p start = drop (Suc (length start)) p"
  "os_walk (sim_sys f) w d = [(d, [], map basename (filter (\<lambda>p. dirname p = d) w))]"
  "subprocess_run (sim_sys f) cmd w =
     (case f (cmd ! 2) of
          Some r \<Rightarrow> (r, w)
        | None \<Rightarrow>
            if last cmd \<in> set w \<and> ''-n'' \<in> set cmd
            then (Completed 1 (''File '' @ last cmd @ '' already exists. Exiting.''), w)
            else (Completed 0 ''  Duration: 00:00:01.00'', w @ [last cmd]))"
  by (simp_all add: sim_sys_def)

lemma sim_gui_simps:
  "selected_directory sim_gui = ''d''" "output_directory sim_gui = None"
  "ffmpeg_available sim_gui" "\<not> overwrite_var sim_gui" "trim_silence_var sim_gui"
  "bit_depth_var sim_gui = ''24''"
  by (simp_all add: sim_gui_def)

lemma sim_find_two:
  "find_caf_files (os_walk (sim_sys f) [''d/a.caf'', ''d/a.CAF''] ''d'')
     = [''d/a.caf'', ''d/a.CAF'']"
  by (simp add: find_caf_files_def sim_sys_simps path_defs)

lemma sim_plan_lower: "plan_wav_path (sim_sys f) sim_gui ''d/a.caf'' None = ''d/a.wav''"
  by (simp add: plan_wav_path_def path_defs)

lemma sim_plan_upper: "plan_wav_path (sim_sys f) sim_gui ''d/a.CAF'' None = ''d/a.wav''"
  by (simp add: plan_wav_path_def path_defs)

lemma sim_convert_first:
  "convert_caf_to_wav (sim_sys (\<lambda>p. None)) sim_gui ''d/a.caf'' ''24'' None True
     ([''d/a.caf'', ''d/a.CAF''], tr)
   = ((Some ''d/a.wav'', ''success'', ''Duration: 00:00:01.00''),
      ([''d/a.caf'', ''d/a.CAF'', ''d/a.wav''],
       tr @ [FFmpeg [''ffmpeg'', ''-i'', ''d/a.caf'', ''-af'',
          ''silenceremove=start_periods=1:start_duration=0:start_threshold=-50dB'',
          ''-acodec'', ''pcm_s24le'', ''-n'', ''d/a.wav'']]))"
  by (simp add: convert_caf_to_wav_def prepare_output_def sim_plan_lower has_output_dir_def sim_sys_simps
      sim_gui_simps convert_with_ffmpeg_def ffmpeg_cmd_def duration_info_def strip_def
      is_space_def Let_def)

lemma sim_convert_second:
  "convert_caf_to_wav (sim_sys (\<lambda>p. None)) sim_gui ''d/a.CAF'' ''24'' None True
     ([''d/a.caf'', ''d/a.CAF'', ''d/a.wav''], tr)
   = ((Some ''d/a.wav'', ''skipped (already exists)'', []),
      ([''d/a.caf'', ''d/a.CAF'', ''d/a.wav''], tr))"
  by (simp add: convert_caf_to_wav_def prepare_output_def sim_plan_upper has_output_dir_def sim_sys_simps
      sim_gui_simps Let_def)

lemma sim_run_two_files:
  "conversion_thread (sim_sys (\<lambda>p. None)) sim_gui (\<lambda>i. True) ([''d/a.caf'', ''d/a.CAF''], [])
   = Finished
      \<lparr>converted_count = 1, skipped_count = 1, error_count = 0, progress_value = 2,
       outcomes =
         [(''d/a.caf'', Some ''d/a.wav'', ''success'', ''Duration: 00:00:01.00''),
          (''d/a.CAF'', Some ''d/a.wav'', ''skipped (already exists)'', [])],
       cancelled = False,
       sys_state =
         ([''d/a.caf'', ''d/a.CAF'', ''d/a.wav''],
          [Poll True,
           FFmpeg [''ffmpeg'', ''-i'', ''d/a.caf'', ''-af'',
             ''silenceremove=start_periods=1:start_duration=0:start_threshold=-50dB'',
             ''-acodec'', ''pcm_s24le'', ''-n'', ''d/a.wav''],
           Poll True])\<rparr>"
  by (simp add: conversion_thread_def sim_find_two sim_gui_simps start_run_def run_job_def
      record_poll_def sim_convert_first sim_convert_second count_status_def Let_def)

section \<open>The counters of the batch loop\<close>

lemma count_status_sum:
  "converted_count (count_status st r) + skipped_count (count_status st r)
     + error_count (count_status st r)
   = Suc (converted_count r + skipped_count r + error_count r)"
  by (simp add: count_status_def)

lemma count_status_other [simp]:
  "outcomes (count_status st r) = outcomes r"
  "cancelled (count_status st r) = cancelled r"
  "sys_state (count_status st r) = sys_state r"
  "progress_value (count_status st r) = progress_value r"
  by (simp_all add: count_status_def)

lemma record_poll_fields [simp]:
  "converted_count (record_poll b r) = converted_count r"
  "skipped_count (record_poll b r) = skipped_count r"
  "error_count (record_poll b r) = error_count r"
  "outcomes (record_poll b r) = outcomes r"
  "cancelled (record_poll b r) = cancelled r"
  "progress_value (record_poll b r) = progress_value r"
  "sys_state (record_poll b r) = (fst (sys_state r), snd (sys_state r) @ [Poll b])"
  by (simp_all add: record_poll_def)

lemma run_job_fields [simp]:
  "converted_count (run_job sys self bd trim i p r) + skipped_count (run_job sys self bd trim i p r)
     + error_count (run_job sys self bd trim i p r)
   = Suc (converted_count r + skipped_count r + error_count r)"
  "length (outcomes (run_job sys self bd trim i p r)) = Suc (length (outcomes r))"
  "cancelled (run_job sys self bd trim i p r) = cancelled r"
  "progress_value (run_job sys self bd trim i p r) = Suc i"
  by (simp_all add: run_job_def Let_def count_status_sum)

lemma loop_outcomes_length:
  "length (outcomes (conversion_loop sys self running bd trim i files r))
     = length (outcomes r) + attempted running i (length files)"
  by (induction files arbitrary: i r) simp_all

lemma loop_counts:
  "converted_count (conversion_loop sys self running bd trim i files r)
   + skipped_count (conversion_loop sys self running bd trim i files r)
   + error_count (conversion_loop sys self running bd trim i files r)
     = converted_count r + skipped_count r + error_count r + attempted running i (length files)"
proof (induction files arbitrary: i r)
  case Nil
  show ?case by simp
next
  case (Cons p files)
  show ?case
  proof (cases "running i")
    case False
    then show ?thesis by simp
  next
    case True
    let ?r = "run_job sys self bd trim i p (record_poll True r)"
    have "converted_count ?r + skipped_count ?r + error_count ?r
        = Suc (converted_count r + skipped_count r + error_count r)"
      using run_job_fields(1) [of sys self bd trim i p "record_poll True r"] by simp
    with True Cons.IH [of "Suc i" ?r] show ?thesis by simp
  qed
qed

lemma attempted_le: "attempted running i n \<le> n"
  by (induction n arbitrary: i) auto

lemma loop_cancelled:
  "cancelled (conversion_loop sys self running bd trim i files r)
     = (cancelled r \<or> attempted running i (length files) < length files)"
  by (induction files arbitrary: i r) auto

lemma loop_progress:
  "progress_value (conversion_loop sys self running bd trim i files r)
     = (if attempted running i (length files) = 0 then progress_value r
        else i + attempted running i (length files))"
  by (induction files arbitrary: i r) auto

text \<open>
  Claim C1. When \<open>conversion_thread\<close> runs its loop to the end, the three counters add up
  to the number of jobs attempted (the calls of \<open>convert_caf_to_wav\<close>, which is also the
  progress bar's value); that number is at most the number of files found, and equals it
  exactly when the loop did not leave through the cancellation branch.
\<close>

theorem counters_account_for_attempted_jobs:
  assumes "conversion_thread sys self running s = Finished r"
  shows "converted_count r + skipped_count r + error_count r = length (outcomes r)
    \<and> progress_value r = length (outcomes r)
    \<and> length (outcomes r)
        \<le> length (find_caf_files (os_walk sys (fst s) (selected_directory self)))
    \<and> (length (outcomes r)
          = length (find_caf_files (os_walk sys (fst s) (selected_directory self)))
        \<longleftrightarrow> \<not> cancelled r)"
proof -
  let ?files = "find_caf_files (os_walk sys (fst s) (selected_directory self))"
  let ?n = "attempted running 0 (length ?files)"
  from assms have r: "r = conversion_loop sys self running (bit_depth_var self)
      (trim_silence_var self) 0 ?files (start_run s)"
    by (simp add: conversion_thread_def Let_def split: if_splits)
  have len: "length (outcomes r) = ?n"
    by (simp add: r loop_outcomes_length start_run_def)
  have cnt: "converted_count r + skipped_count r + error_count r = ?n"
    unfolding r by (simp add: loop_counts start_run_def)
  have prog: "progress_value r = ?n"
    by (simp add: r loop_progress start_run_def)
  have canc: "cancelled r = (?n < length ?files)"
    by (simp add: r loop_cancelled start_run_def)
  have le: "?n \<le> length ?files" by (rule attempted_le)
  from len cnt prog canc le show ?thesis by auto
qed


theorem counters_account_for_attempted_jobs_witness:
  "(case conversion_thread (sim_sys (\<lambda>p. None)) sim_gui (\<lambda>i. True)
           ([''d/a.caf'', ''d/a.CAF''], []) of
      Finished r \<Rightarrow>
        converted_count r + skipped_count r + error_count r = 2
        \<and> length (outcomes r) = 2 \<and> progress_value r = 2 \<and> \<not> cancelled r
    | FFmpegRequired \<Rightarrow> False
    | NoFiles \<Rightarrow> False)"
  using counters_account_for_attempted_jobs [OF sim_run_two_files]
  by (simp add: sim_run_two_files)

section \<open>Cancellation\<close>

lemma convert_with_ffmpeg_trace:
  "snd (snd (convert_with_ffmpeg sys self caf_path wav_path bd trim s))
     = snd s @ [FFmpeg (ffmpeg_cmd self caf_path wav_path bd trim)]"
  by (simp add: convert_with_ffmpeg_def Let_def split: proc.splits)

lemma prepare_output_trace:
  "snd (snd (snd (prepare_output sys self p out s)))
     = snd s @ (if has_output_dir out
                then [MakeDirs (dirname (plan_wav_path sys self p out))] else [])"
  by (simp add: prepare_output_def Let_def split: prod.splits)

lemma prepare_output_path:
  "fst (snd (prepare_output sys self p out s)) = plan_wav_path sys self p out"
  by (simp add: prepare_output_def Let_def split: prod.splits)








section \<open>Runs of the simulated bit depth converter\<close>

lemma sim_wav_simps:
  "sf_info sim_wav w p = (case map_of w p of
                   None \<Rightarrow> Inl ''Error opening file''
                 | Some (subtype, data, rate) \<Rightarrow> Inr subtype)"
  "sf_read sim_wav w p = (case map_of w p of
                   None \<Rightarrow> Inl ''Error opening file''
                 | Some (subtype, data, rate) \<Rightarrow> Inr (data, rate))"
  "sf_write sim_wav p data rate subtype w =
                   (None, filter (\<lambda>e. fst e \<noteq> p) w @ [(p, subtype, data, rate)])"
  "w_makedirs sim_wav d w = (None, w)"
  "w_listdir sim_wav w d = Inr (map basename (filter (\<lambda>p. dirname p = d) (map fst w)))"
  by (simp_all add: sim_wav_def)

lemma sim_wav_gui_simps:
  "folder_path sim_wav_gui = ''d''" "\<not> include_subdirs sim_wav_gui"
  "convert_to_24bit sim_wav_gui" "convert_to_16bit sim_wav_gui" "\<not> is_processing sim_wav_gui"
  by (simp_all add: sim_wav_gui_def)

lemma sim_wav_find:
  "find_wav_files sim_wav sim_wav_world ''d'' False = Inr [''d/a.wav'', ''d/b.wav'']"
  by (simp add: find_wav_files_def sim_wav_simps sim_wav_world_def path_defs)

lemma sim_wav_filter:
  "filter_32bit sim_wav [''d/a.wav'', ''d/b.wav''] (sim_wav_world, [])
     = ([''d/a.wav''], (sim_wav_world, [SfInfo ''d/a.wav'', SfInfo ''d/b.wav'']))"
  by (simp add: get_bit_depth_def sim_wav_simps sim_wav_world_def subtype_bits_def)

lemma sim_wav_paths:
  "path_join (path_join (dirname ''d/a.wav'') ''24bit'') (basename ''d/a.wav'') = ''d/24bit/a.wav''"
  "path_join (path_join (dirname ''d/a.wav'') ''16bit'') (basename ''d/a.wav'') = ''d/16bit/a.wav''"
  "dirname ''d/24bit/a.wav'' = ''d/24bit''" "dirname ''d/16bit/a.wav'' = ''d/16bit''"
  by (simp_all add: path_defs)

lemma sim_wav_convert_24:
  "convert_file sim_wav ''d/a.wav'' ''d/24bit/a.wav'' 24 (sim_wav_world, tr)
    = (True, (sim_wav_world @ [(''d/24bit/a.wav'', ''PCM_24'', [5, 7], 48000)],
         tr @ [SfRead ''d/a.wav'', WMakeDirs ''d/24bit'', SfWrite ''d/24bit/a.wav'' ''PCM_24'']))"
  by (simp add: convert_file_def write_output_def sim_wav_simps sim_wav_paths sim_wav_world_def Let_def)

lemma sim_wav_convert_16:
  "convert_file sim_wav ''d/a.wav'' ''d/16bit/a.wav'' 16
      (sim_wav_world @ [(''d/24bit/a.wav'', ''PCM_24'', [5, 7], 48000)], tr)
    = (True, (sim_wav_world @ [(''d/24bit/a.wav'', ''PCM_24'', [5, 7], 48000),
                (''d/16bit/a.wav'', ''PCM_16'', [5, 7], 48000)],
         tr @ [SfRead ''d/a.wav'', WMakeDirs ''d/16bit'', SfWrite ''d/16bit/a.wav'' ''PCM_16'']))"
  by (simp add: convert_file_def write_output_def sim_wav_simps sim_wav_paths sim_wav_world_def Let_def)

lemma sim_wav_run:
  "process_files sim_wav sim_wav_gui (sim_wav_world, [])
   = (Processed [''d/a.wav'']
       \<lparr>total_conversions = 2, current_conversion = 2,
        conversions = [(''d/a.wav'', ''d/24bit/a.wav'', 24, True),
                       (''d/a.wav'', ''d/16bit/a.wav'', 16, True)],
        wav_state =
          (sim_wav_world @ [(''d/24bit/a.wav'', ''PCM_24'', [5, 7], 48000),
                (''d/16bit/a.wav'', ''PCM_16'', [5, 7], 48000)],
           [SfInfo ''d/a.wav'', SfInfo ''d/b.wav'', SfRead ''d/a.wav'', WMakeDirs ''d/24bit'',
            SfWrite ''d/24bit/a.wav'' ''PCM_24'', SfRead ''d/a.wav'', WMakeDirs ''d/16bit'',
            SfWrite ''d/16bit/a.wav'' ''PCM_16''])\<rparr>,
      sim_wav_gui\<lparr>is_processing := False\<rparr>)"
  by (simp add: process_files_def sim_wav_gui_simps sim_wav_find sim_wav_filter convert_to_def
      sim_wav_paths sim_wav_convert_24 sim_wav_convert_16 Let_def
      del: filter_32bit.simps)

lemma convert_to_counts [simp]:
  "current_conversion (convert_to sys f sub bits r) = Suc (current_conversion r)"
  "total_conversions (convert_to sys f sub bits r) = total_conversions r"
  "length (conversions (convert_to sys f sub bits r)) = Suc (length (conversions r))"
  by (simp_all add: convert_to_def Let_def)



section \<open>Cancellation is polled before each job\<close>


lemma sim_convert_new:
  "''d/a.wav'' \<notin> set w \<Longrightarrow>
   convert_caf_to_wav (sim_sys (\<lambda>p. None)) sim_gui ''d/a.caf'' ''24'' None True (w, tr)
   = ((Some ''d/a.wav'', ''success'', ''Duration: 00:00:01.00''),
      (w @ [''d/a.wav''],
       tr @ [FFmpeg [''ffmpeg'', ''-i'', ''d/a.caf'', ''-af'',
          ''silenceremove=start_periods=1:start_duration=0:start_threshold=-50dB'',
          ''-acodec'', ''pcm_s24le'', ''-n'', ''d/a.wav'']]))"
  by (simp add: convert_caf_to_wav_def prepare_output_def sim_plan_lower has_output_dir_def sim_sys_simps
      sim_gui_simps convert_with_ffmpeg_def ffmpeg_cmd_def duration_info_def strip_def
      is_space_def Let_def)






section \<open>Existing destinations\<close>

lemma ffmpeg_cmd_overwrite_flag:
  "ffmpeg_cmd self p w bd trim ! (length (ffmpeg_cmd self p w bd trim) - 2)
     = (if overwrite_var self then ''-y'' else ''-n'')"
  "last (ffmpeg_cmd self p w bd trim) = w"
  by (simp_all add: ffmpeg_cmd_def Let_def nth_append)

lemma count_status_skipped:
  "count_status ''skipped (already exists)'' r = r\<lparr>skipped_count := skipped_count r + 1\<rparr>"
  by (simp add: count_status_def)

text \<open>
  Claim C2, as amended. In the CAF converter with overwrite disabled, a job whose output path
  exists when it is checked (after the output directory was created without an exception)
  returns \<open>skipped (already exists)\<close>, is counted as skipped and invokes FFmpeg not at all;
  and whenever FFmpeg is invoked with overwrite disabled, the path did not exist at the check
  and the command carries \<open>-n\<close>, FFmpeg's flag that refuses to overwrite.
\<close>

theorem existing_destination_is_skipped:
  assumes "\<not> overwrite_var self"
    and "prepare_output sys self caf_path out s = (None, wav_path, s')"
  shows "(path_exists sys (fst s') wav_path \<longrightarrow>
           convert_caf_to_wav sys self caf_path bd out trim s
             = ((Some wav_path, ''skipped (already exists)'', []), s')
           \<and> filter is_ffmpeg (snd s') = filter is_ffmpeg (snd s)
           \<and> count_status ''skipped (already exists)'' r
               = r\<lparr>skipped_count := skipped_count r + 1\<rparr>)
    \<and> (\<forall>cmd. FFmpeg cmd \<in> set (drop (length (snd s))
                    (snd (snd (convert_caf_to_wav sys self caf_path bd out trim s)))) \<longrightarrow>
          \<not> path_exists sys (fst s') wav_path
          \<and> cmd ! (length cmd - 2) = ''-n'' \<and> last cmd = wav_path)"
proof -
  have tr: "snd s' = snd s @ (if has_output_dir out
                then [MakeDirs (dirname (plan_wav_path sys self caf_path out))] else [])"
    using prepare_output_trace [of sys self caf_path out s] assms(2) by simp
  have skip: "path_exists sys (fst s') wav_path \<longrightarrow>
           convert_caf_to_wav sys self caf_path bd out trim s
             = ((Some wav_path, ''skipped (already exists)'', []), s')"
    using assms by (simp add: convert_caf_to_wav_def)
  have ff: "filter is_ffmpeg (snd s') = filter is_ffmpeg (snd s)"
    by (simp add: tr)
  have cmds: "\<forall>cmd. FFmpeg cmd \<in> set (drop (length (snd s))
                    (snd (snd (convert_caf_to_wav sys self caf_path bd out trim s)))) \<longrightarrow>
          \<not> path_exists sys (fst s') wav_path
          \<and> cmd ! (length cmd - 2) = ''-n'' \<and> last cmd = wav_path"
    using assms(1)
    by (auto simp add: convert_caf_to_wav_def assms(2) tr convert_with_ffmpeg_trace
        ffmpeg_cmd_overwrite_flag)
  from skip ff cmds count_status_skipped show ?thesis by blast
qed

theorem existing_destination_is_skipped_witness:
  "\<not> overwrite_var sim_gui
   \<and> prepare_output (sim_sys (\<lambda>p. None)) sim_gui ''d/a.CAF'' None
        ([''d/a.caf'', ''d/a.CAF'', ''d/a.wav''], [Poll True])
      = (None, ''d/a.wav'', ([''d/a.caf'', ''d/a.CAF'', ''d/a.wav''], [Poll True]))
   \<and> path_exists (sim_sys (\<lambda>p. None)) [''d/a.caf'', ''d/a.CAF'', ''d/a.wav''] ''d/a.wav''
   \<and> convert_caf_to_wav (sim_sys (\<lambda>p. None)) sim_gui ''d/a.CAF'' ''24'' None True
        ([''d/a.caf'', ''d/a.CAF'', ''d/a.wav''], [Poll True])
      = ((Some ''d/a.wav'', ''skipped (already exists)'', []),
         ([''d/a.caf'', ''d/a.CAF'', ''d/a.wav''], [Poll True]))"
proof -
  have ow: "\<not> overwrite_var sim_gui" by (simp add: sim_gui_simps)
  have prep: "prepare_output (sim_sys (\<lambda>p. None)) sim_gui ''d/a.CAF'' None
        ([''d/a.caf'', ''d/a.CAF'', ''d/a.wav''], [Poll True])
      = (None, ''d/a.wav'', ([''d/a.caf'', ''d/a.CAF'', ''d/a.wav''], [Poll True]))"
    by (simp add: prepare_output_def sim_plan_upper has_output_dir_def)
  have ex: "path_exists (sim_sys (\<lambda>p. None)) [''d/a.caf'', ''d/a.CAF'', ''d/a.wav''] ''d/a.wav''"
    by (simp add: sim_sys_simps)
  have run: ?thesis
    using ow prep ex by (simp add: sim_convert_second)
  from existing_destination_is_skipped [OF ow prep, of "''24''" True]
  show ?thesis by (rule_tac run)
qed

text \<open>
  Claim C2 as stated fails for the bit depth converter: \<open>convert_file\<close> has no existence
  check and no overwrite option, and replaces an existing destination.
\<close>

theorem bit_depth_converter_overwrites:
  "map_of sim_wav_existing ''d/24bit/a.wav'' = Some (''PCM_16'', [9], 8000)
   \<and> convert_file sim_wav ''d/a.wav'' ''d/24bit/a.wav'' 24 (sim_wav_existing, [])
     = (True,
        ([(''d/a.wav'', ''FLOAT'', [5, 7], 48000), (''d/24bit/a.wav'', ''PCM_24'', [5, 7], 48000)],
         [SfRead ''d/a.wav'', WMakeDirs ''d/24bit'', SfWrite ''d/24bit/a.wav'' ''PCM_24'']))"
  by (simp add: convert_file_def write_output_def sim_wav_simps sim_wav_paths
      sim_wav_existing_def Let_def)

section \<open>Failures of the encoder\<close>

lemma count_status_error:
  "count_status (''Exception: '' @ e) r = r\<lparr>error_count := error_count r + 1\<rparr>"
  "count_status (''FFmpeg error: '' @ e) r = r\<lparr>error_count := error_count r + 1\<rparr>"
  "count_status (''error: '' @ e) r = r\<lparr>error_count := error_count r + 1\<rparr>"
  by (simp_all add: count_status_def)

lemma error_msg_last_lines:
  "stderr \<noteq> [] \<Longrightarrow> error_msg stderr = last3 (split_on CHR 0x0A stderr)"
  "length (last3 xs) \<le> 3"
  by (simp_all add: error_msg_def last3_def)

lemma convert_with_ffmpeg_failed:
  assumes "subprocess_run sys (ffmpeg_cmd self p wav_path bd trim) (fst s) = (res, w)"
    and "adapter_failed res"
  shows "convert_with_ffmpeg sys self p wav_path bd trim s
    = ((None, failure_status res, []), (w, snd s @ [FFmpeg (ffmpeg_cmd self p wav_path bd trim)]))"
  using assms
  by (cases res)
    (simp_all add: convert_with_ffmpeg_def Let_def adapter_failed_def failure_status_def)

text \<open>
  Claim C7, as amended. When the pre-flight checks pass and the FFmpeg call raises, or exits
  non-zero with a standard error that does not contain \<open>already exists\<close>, the job returns no
  path and an error status, the error counter alone is incremented, and the loop goes on
  with the next job. The status is \<open>Exception:\<close> and the exception's text, or
  \<open>FFmpeg error:\<close> and the last three newline-separated pieces of a non-empty standard
  error joined by spaces.
\<close>

theorem adapter_failure_is_counted_and_loop_continues:
  assumes "running i"
    and "prepare_output sys self p (output_directory self) (sys_state (record_poll True r))
           = (None, wav_path, s')"
    and "\<not> (path_exists sys (fst s') wav_path \<and> \<not> overwrite_var self)"
    and "ffmpeg_available self"
    and "subprocess_run sys (ffmpeg_cmd self p wav_path bd trim) (fst s') = (res, w)"
    and "adapter_failed res"
  shows "conversion_loop sys self running bd trim i (p # rest) r
      = conversion_loop sys self running bd trim (Suc i) rest
          ((record_poll True r)
             \<lparr>error_count := error_count r + 1,
              progress_value := i + 1,
              outcomes := outcomes r @ [(p, None, failure_status res, [])],
              sys_state := (w, snd s' @ [FFmpeg (ffmpeg_cmd self p wav_path bd trim)])\<rparr>)
    \<and> (\<forall>e. res = Raised e \<longrightarrow> failure_status res = ''Exception: '' @ e)
    \<and> (\<forall>returncode stderr. res = Completed returncode stderr \<and> stderr \<noteq> [] \<longrightarrow>
          failure_status res
            = ''FFmpeg error: '' @ join_str '' '' (last3 (split_on CHR 0x0A stderr)))"
proof -
  have conv: "convert_caf_to_wav sys self p bd (output_directory self) trim
        (sys_state (record_poll True r))
      = ((None, failure_status res, []),
         (w, snd s' @ [FFmpeg (ffmpeg_cmd self p wav_path bd trim)]))"
    using assms(2,3,4)
    by (simp add: convert_caf_to_wav_def convert_with_ffmpeg_failed [OF assms(5,6)])
  have cnt: "count_status (failure_status res) (record_poll True r)
      = (record_poll True r)\<lparr>error_count := error_count r + 1\<rparr>"
    using assms(6)
    by (cases res) (simp_all add: failure_status_def count_status_def record_poll_def)
  have step: "run_job sys self bd trim i p (record_poll True r)
      = (record_poll True r)
             \<lparr>error_count := error_count r + 1,
              progress_value := i + 1,
              outcomes := outcomes r @ [(p, None, failure_status res, [])],
              sys_state := (w, snd s' @ [FFmpeg (ffmpeg_cmd self p wav_path bd trim)])\<rparr>"
    unfolding run_job_def Let_def conv by (simp add: cnt)
  have loop: "conversion_loop sys self running bd trim i (p # rest) r
      = conversion_loop sys self running bd trim (Suc i) rest
          (run_job sys self bd trim i p (record_poll True r))"
    using assms(1) by simp
  have raised: "\<forall>e. res = Raised e \<longrightarrow> failure_status res = ''Exception: '' @ e"
    by (simp add: failure_status_def)
  have lines: "\<forall>returncode stderr. res = Completed returncode stderr \<and> stderr \<noteq> [] \<longrightarrow>
          failure_status res
            = ''FFmpeg error: '' @ join_str '' '' (last3 (split_on CHR 0x0A stderr))"
    by (simp add: failure_status_def error_msg_def)
  from loop step raised lines show ?thesis by simp
qed

lemma sim_stderr_status:
  "failure_status (Completed 1 sim_stderr)
     = ''FFmpeg error: Stream mapping: d/a.caf: Invalid data found Conversion failed!''"
  by (simp add: failure_status_def error_msg_def sim_stderr_def last3_def)

lemma sim_stderr_failed: "adapter_failed (Completed 1 sim_stderr)"
  by (simp add: adapter_failed_def sim_stderr_def)

lemma sim_plan_b: "plan_wav_path (sim_sys f) sim_gui ''d/b.caf'' None = ''d/b.wav''"
  by (simp add: plan_wav_path_def path_defs)

lemma sim_prepare:
  "prepare_output (sim_sys f) sim_gui p None s = (None, plan_wav_path (sim_sys f) sim_gui p None, s)"
  by (simp add: prepare_output_def has_output_dir_def)

lemma sim_fail_run_ffmpeg:
  "subprocess_run (sim_sys sim_fail) (ffmpeg_cmd sim_gui ''d/a.caf'' ''d/a.wav'' ''24'' True) w
     = (Completed 1 sim_stderr, w)"
  by (simp add: sim_sys_simps ffmpeg_cmd_def sim_fail_def)

lemma sim_fail_convert_b:
  "''d/b.wav'' \<notin> set w \<Longrightarrow>
   convert_caf_to_wav (sim_sys sim_fail) sim_gui ''d/b.caf'' ''24'' None True (w, tr)
   = ((Some ''d/b.wav'', ''success'', ''Duration: 00:00:01.00''),
      (w @ [''d/b.wav''],
       tr @ [FFmpeg [''ffmpeg'', ''-i'', ''d/b.caf'', ''-af'',
          ''silenceremove=start_periods=1:start_duration=0:start_threshold=-50dB'',
          ''-acodec'', ''pcm_s24le'', ''-n'', ''d/b.wav'']]))"
  by (simp add: convert_caf_to_wav_def sim_prepare sim_plan_b sim_sys_simps
      sim_gui_simps convert_with_ffmpeg_def ffmpeg_cmd_def duration_info_def strip_def
      is_space_def sim_fail_def Let_def)

lemma sim_fail_ffmpeg_cmd:
  "ffmpeg_cmd sim_gui ''d/a.caf'' ''d/a.wav'' ''24'' True
    = [''ffmpeg'', ''-i'', ''d/a.caf'', ''-af'',
          ''silenceremove=start_periods=1:start_duration=0:start_threshold=-50dB'',
          ''-acodec'', ''pcm_s24le'', ''-n'', ''d/a.wav'']"
  by (simp add: ffmpeg_cmd_def sim_gui_simps)

theorem adapter_failure_is_counted_and_loop_continues_witness:
  "conversion_loop (sim_sys sim_fail) sim_gui (\<lambda>i. True) ''24'' True 0
      [''d/a.caf'', ''d/b.caf''] (start_run ([''d/a.caf'', ''d/b.caf''], []))
   = \<lparr>converted_count = 1, skipped_count = 0, error_count = 1, progress_value = 2,
       outcomes =
         [(''d/a.caf'', None,
           ''FFmpeg error: Stream mapping: d/a.caf: Invalid data found Conversion failed!'', []),
          (''d/b.caf'', Some ''d/b.wav'', ''success'', ''Duration: 00:00:01.00'')],
       cancelled = False,
       sys_state =
         ([''d/a.caf'', ''d/b.caf'', ''d/b.wav''],
          [Poll True,
           FFmpeg [''ffmpeg'', ''-i'', ''d/a.caf'', ''-af'',
             ''silenceremove=start_periods=1:start_duration=0:start_threshold=-50dB'',
             ''-acodec'', ''pcm_s24le'', ''-n'', ''d/a.wav''],
           Poll True,
           FFmpeg [''ffmpeg'', ''-i'', ''d/b.caf'', ''-af'',
             ''silenceremove=start_periods=1:start_duration=0:start_threshold=-50dB'',
             ''-acodec'', ''pcm_s24le'', ''-n'', ''d/b.wav'']])\<rparr>"
proof -
  let ?r = "start_run ([''d/a.caf'', ''d/b.caf''], [])"
  have prep: "prepare_output (sim_sys sim_fail) sim_gui ''d/a.caf'' (output_directory sim_gui)
      (sys_state (record_poll True ?r)) = (None, ''d/a.wav'', sys_state (record_poll True ?r))"
    by (simp add: sim_gui_simps sim_prepare sim_plan_lower)
  have free: "\<not> (path_exists (sim_sys sim_fail) (fst (sys_state (record_poll True ?r))) ''d/a.wav''
      \<and> \<not> overwrite_var sim_gui)"
    by (simp add: sim_sys_simps start_run_def)
  have avail: "ffmpeg_available sim_gui" by (simp add: sim_gui_simps)
  have ran: "subprocess_run (sim_sys sim_fail)
      (ffmpeg_cmd sim_gui ''d/a.caf'' ''d/a.wav'' ''24'' True)
      (fst (sys_state (record_poll True ?r)))
     = (Completed 1 sim_stderr, [''d/a.caf'', ''d/b.caf''])"
    by (simp add: sim_fail_run_ffmpeg start_run_def)
  have step: "conversion_loop (sim_sys sim_fail) sim_gui (\<lambda>i. True) ''24'' True 0
      (''d/a.caf'' # [''d/b.caf'']) ?r
    = conversion_loop (sim_sys sim_fail) sim_gui (\<lambda>i. True) ''24'' True (Suc 0) [''d/b.caf'']
          ((record_poll True ?r)
             \<lparr>error_count := error_count ?r + 1,
              progress_value := 0 + 1,
              outcomes := outcomes ?r @ [(''d/a.caf'', None, failure_status (Completed 1 sim_stderr), [])],
              sys_state := ([''d/a.caf'', ''d/b.caf''], snd (sys_state (record_poll True ?r))
                 @ [FFmpeg (ffmpeg_cmd sim_gui ''d/a.caf'' ''d/a.wav'' ''24'' True)])\<rparr>)"
    using adapter_failure_is_counted_and_loop_continues
      [of "\<lambda>i. True" 0, OF TrueI prep free avail ran sim_stderr_failed, of "[''d/b.caf'']"]
    by blast
  show ?thesis
    unfolding step
    by (simp add: sim_stderr_status sim_fail_ffmpeg_cmd start_run_def record_poll_def
        run_job_def sim_fail_convert_b count_status_def sim_gui_simps Let_def)
qed

lemma sim_refuse_convert:
  "convert_caf_to_wav (sim_sys sim_refuse) sim_gui ''d/a.caf'' ''24'' None True ([''d/a.caf''], tr)
   = ((None, ''skipped (already exists)'', []),
      ([''d/a.caf''],
       tr @ [FFmpeg [''ffmpeg'', ''-i'', ''d/a.caf'', ''-af'',
          ''silenceremove=start_periods=1:start_duration=0:start_threshold=-50dB'',
          ''-acodec'', ''pcm_s24le'', ''-n'', ''d/a.wav'']]))"
  by (simp add: convert_caf_to_wav_def sim_prepare sim_plan_lower sim_sys_simps
      sim_gui_simps convert_with_ffmpeg_def ffmpeg_cmd_def sim_refuse_def Let_def)

lemma sim_find_one:
  "find_caf_files (os_walk (sim_sys f) [''d/a.caf''] ''d'') = [''d/a.caf'']"
  by (simp add: find_caf_files_def sim_sys_simps path_defs)

lemma sim_refuse_run_ffmpeg:
  "subprocess_run (sim_sys sim_refuse)
      (ffmpeg_cmd sim_gui ''d/a.caf'' ''d/a.wav'' ''24'' True) [''d/a.caf'']
     = (Completed 1 ''File d/a.wav already exists. Exiting.'', [''d/a.caf''])"
  by (simp add: sim_sys_simps sim_refuse_def)

lemma sim_refuse_thread:
  "conversion_thread (sim_sys sim_refuse) sim_gui (\<lambda>i. True) ([''d/a.caf''], [])
     = Finished
        \<lparr>converted_count = 0, skipped_count = 1, error_count = 0, progress_value = 1,
         outcomes = [(''d/a.caf'', None, ''skipped (already exists)'', [])],
         cancelled = False,
         sys_state =
           ([''d/a.caf''],
            [Poll True,
             FFmpeg [''ffmpeg'', ''-i'', ''d/a.caf'', ''-af'',
               ''silenceremove=start_periods=1:start_duration=0:start_threshold=-50dB'',
               ''-acodec'', ''pcm_s24le'', ''-n'', ''d/a.wav'']])\<rparr>"
  by (simp add: conversion_thread_def sim_find_one sim_gui_simps start_run_def run_job_def
      record_poll_def sim_refuse_convert count_status_def Let_def)

text \<open>
  Claim C7 as stated fails: a non-zero exit whose standard error contains
  \<open>already exists\<close> is reported and counted as skipped, not as failed.
\<close>

theorem nonzero_exit_counted_as_skipped:
  "subprocess_run (sim_sys sim_refuse)
      (ffmpeg_cmd sim_gui ''d/a.caf'' ''d/a.wav'' ''24'' True) [''d/a.caf'']
     = (Completed 1 ''File d/a.wav already exists. Exiting.'', [''d/a.caf''])
   \<and> conversion_thread (sim_sys sim_refuse) sim_gui (\<lambda>i. True) ([''d/a.caf''], [])
     = Finished
        \<lparr>converted_count = 0, skipped_count = 1, error_count = 0, progress_value = 1,
         outcomes = [(''d/a.caf'', None, ''skipped (already exists)'', [])],
         cancelled = False,
         sys_state =
           ([''d/a.caf''],
            [Poll True,
             FFmpeg [''ffmpeg'', ''-i'', ''d/a.caf'', ''-af'',
               ''silenceremove=start_periods=1:start_duration=0:start_threshold=-50dB'',
               ''-acodec'', ''pcm_s24le'', ''-n'', ''d/a.wav'']])\<rparr>"
  using sim_refuse_run_ffmpeg sim_refuse_thread by (rule conjI)

section \<open>Classification of WAV files\<close>




lemma filter_32bit_world [simp]: "fst (snd (filter_32bit sys files s)) = fst s"
proof (induction files arbitrary: s)
  case Nil
  show ?case by simp
next
  case (Cons f files)
  have g: "fst (snd (get_bit_depth sys f s)) = fst s"
    by (simp add: get_bit_depth_def split: sum.splits)
  show ?case
    using Cons.IH [of "snd (get_bit_depth sys f s)"] g
    by (simp split: prod.splits) (metis fst_conv snd_conv)
qed




section \<open>The conversion primitive of the bit depth converter\<close>





section \<open>Running the batch twice\<close>

lemma contract_success:
  "adapter_contract sys \<Longrightarrow> fst (subprocess_run sys cmd w) = Completed 0 e \<Longrightarrow>
   path_exists sys (snd (subprocess_run sys cmd w)) (last cmd)"
  by (simp add: adapter_contract_def)

lemma contract_run_keeps:
  "adapter_contract sys \<Longrightarrow> path_exists sys w p \<Longrightarrow>
   path_exists sys (snd (subprocess_run sys cmd w)) p"
  by (simp add: adapter_contract_def)

lemma contract_makedirs_keeps:
  "adapter_contract sys \<Longrightarrow> path_exists sys w p \<Longrightarrow> path_exists sys (snd (makedirs sys d w)) p"
  by (simp add: adapter_contract_def)

lemma contract_makedirs_ok:
  "adapter_contract sys \<Longrightarrow> path_exists sys w p \<Longrightarrow> fst (makedirs sys (dirname p) w) = None"
  by (simp add: adapter_contract_def)

lemma prepare_output_world:
  "fst (snd (snd (prepare_output sys self p out s)))
     = (if has_output_dir out
        then snd (makedirs sys (dirname (plan_wav_path sys self p out)) (fst s)) else fst s)"
  by (simp add: prepare_output_def Let_def split: prod.splits)

lemma prepare_output_raised:
  "fst (prepare_output sys self p out s)
     = (if has_output_dir out
        then fst (makedirs sys (dirname (plan_wav_path sys self p out)) (fst s)) else None)"
  by (simp add: prepare_output_def Let_def split: prod.splits)

lemma prepare_output_keeps:
  assumes "adapter_contract sys" and "path_exists sys (fst s) q"
  shows "path_exists sys (fst (snd (snd (prepare_output sys self p out s)))) q"
  using assms by (simp add: prepare_output_world contract_makedirs_keeps)

lemma convert_with_ffmpeg_world:
  "fst (snd (convert_with_ffmpeg sys self p wp bd trim s))
     = snd (subprocess_run sys (ffmpeg_cmd self p wp bd trim) (fst s))"
  by (simp add: convert_with_ffmpeg_def Let_def split: proc.splits)

lemma convert_with_ffmpeg_success:
  "fst (snd (fst (convert_with_ffmpeg sys self p wp bd trim s))) = ''success'' \<Longrightarrow>
   fst (fst (convert_with_ffmpeg sys self p wp bd trim s)) = Some wp
   \<and> (\<exists>e. fst (subprocess_run sys (ffmpeg_cmd self p wp bd trim) (fst s)) = Completed 0 e)"
  by (simp add: convert_with_ffmpeg_def Let_def split: proc.splits if_splits)

lemma convert_keeps:
  assumes c: "adapter_contract sys" and e: "path_exists sys (fst s) q"
  shows "path_exists sys (fst (snd (convert_caf_to_wav sys self p bd out trim s))) q"
proof -
  obtain r wp s' where pr: "prepare_output sys self p out s = (r, wp, s')"
    by (cases "prepare_output sys self p out s") auto
  have k: "path_exists sys (fst s') q"
    using prepare_output_keeps [OF c e, of self p out] pr by simp
  show ?thesis
    using k contract_run_keeps [OF c k]
    by (simp add: convert_caf_to_wav_def pr convert_with_ffmpeg_world split: option.splits)
qed

lemma convert_success_exists:
  assumes c: "adapter_contract sys"
    and ok: "fst (snd (fst (convert_caf_to_wav sys self p bd out trim s))) = ''success''"
  shows "fst (fst (convert_caf_to_wav sys self p bd out trim s)) = Some (plan_wav_path sys self p out)
    \<and> path_exists sys (fst (snd (convert_caf_to_wav sys self p bd out trim s)))
         (plan_wav_path sys self p out)"
proof -
  obtain r wp s' where pr: "prepare_output sys self p out s = (r, wp, s')"
    by (cases "prepare_output sys self p out s") auto
  have wp: "wp = plan_wav_path sys self p out"
    using prepare_output_path [of sys self p out s] pr by simp
  from ok have conv: "convert_caf_to_wav sys self p bd out trim s
      = convert_with_ffmpeg sys self p wp bd trim s'"
    by (auto simp add: convert_caf_to_wav_def pr split: option.splits if_splits)
  from ok conv have ok': "fst (snd (fst (convert_with_ffmpeg sys self p wp bd trim s'))) = ''success''"
    by simp
  from convert_with_ffmpeg_success [OF ok'] obtain e where
      some: "fst (fst (convert_with_ffmpeg sys self p wp bd trim s')) = Some wp"
      and ran: "fst (subprocess_run sys (ffmpeg_cmd self p wp bd trim) (fst s')) = Completed 0 e"
    by blast
  have "path_exists sys (snd (subprocess_run sys (ffmpeg_cmd self p wp bd trim) (fst s')))
      (last (ffmpeg_cmd self p wp bd trim))"
    by (rule contract_success [OF c ran])
  then have "path_exists sys (fst (snd (convert_with_ffmpeg sys self p wp bd trim s'))) wp"
    by (simp add: convert_with_ffmpeg_world ffmpeg_cmd_def Let_def)
  with some show ?thesis by (simp add: conv wp)
qed

lemma convert_skips_existing:
  assumes c: "adapter_contract sys" and ow: "\<not> overwrite_var self"
    and e: "path_exists sys (fst s) (plan_wav_path sys self p out)"
  shows "fst (convert_caf_to_wav sys self p bd out trim s)
     = (Some (plan_wav_path sys self p out), ''skipped (already exists)'', [])"
proof -
  obtain r wp s' where pr: "prepare_output sys self p out s = (r, wp, s')"
    by (cases "prepare_output sys self p out s") auto
  have wp: "wp = plan_wav_path sys self p out"
    using prepare_output_path [of sys self p out s] pr by simp
  have r: "r = None"
    using prepare_output_raised [of sys self p out s] pr contract_makedirs_ok [OF c e]
    by (simp split: if_splits)
  have k: "path_exists sys (fst s') wp"
    using prepare_output_keeps [OF c e, of self p out] pr wp by simp
  show ?thesis
    using k ow by (simp add: convert_caf_to_wav_def pr r wp)
qed

lemma run_job_outcomes:
  "outcomes (run_job sys self bd trim i p r)
     = outcomes r @ [(p, fst (convert_caf_to_wav sys self p bd (output_directory self) trim
                          (sys_state r)))]"
  "sys_state (run_job sys self bd trim i p r)
     = snd (convert_caf_to_wav sys self p bd (output_directory self) trim (sys_state r))"
  by (simp_all add: run_job_def Let_def)

lemma run_job_keeps:
  assumes "adapter_contract sys" and "path_exists sys (fst (sys_state r)) q"
  shows "path_exists sys (fst (sys_state (run_job sys self bd trim i p r))) q"
  using convert_keeps [OF assms] by (simp add: run_job_outcomes)

lemma loop_keeps:
  assumes c: "adapter_contract sys"
  shows "path_exists sys (fst (sys_state r)) q \<Longrightarrow>
     path_exists sys (fst (sys_state (conversion_loop sys self running bd trim i files r))) q"
proof (induction files arbitrary: i r)
  case Nil
  then show ?case by simp
next
  case (Cons p files)
  show ?case
  proof (cases "running i")
    case False
    with Cons.prems show ?thesis by simp
  next
    case True
    have "path_exists sys (fst (sys_state (record_poll True r))) q"
      using Cons.prems by simp
    then have "path_exists sys
        (fst (sys_state (run_job sys self bd trim i p (record_poll True r)))) q"
      by (rule run_job_keeps [OF c])
    with True Cons.IH show ?thesis by simp
  qed
qed

lemma loop_success_exists:
  assumes c: "adapter_contract sys"
  shows "(p, (d, ''success'', info))
            \<in> set (outcomes (conversion_loop sys self running bd trim i files r)) \<Longrightarrow>
     (p, (d, ''success'', info)) \<in> set (outcomes r)
     \<or> (d = Some (plan_wav_path sys self p (output_directory self))
        \<and> path_exists sys
             (fst (sys_state (conversion_loop sys self running bd trim i files r)))
             (plan_wav_path sys self p (output_directory self)))"
proof (induction files arbitrary: i r)
  case Nil
  then show ?case by simp
next
  case (Cons f files)
  show ?case
  proof (cases "running i")
    case False
    with Cons.prems show ?thesis by simp
  next
    case True
    let ?r0 = "record_poll True r"
    let ?r1 = "run_job sys self bd trim i f ?r0"
    let ?res = "convert_caf_to_wav sys self f bd (output_directory self) trim (sys_state ?r0)"
    from True Cons.prems have mem: "(p, (d, ''success'', info))
        \<in> set (outcomes (conversion_loop sys self running bd trim (Suc i) files ?r1))"
      by simp
    from Cons.IH [OF mem] show ?thesis
    proof
      assume old: "(p, (d, ''success'', info)) \<in> set (outcomes ?r1)"
      show ?thesis
      proof (cases "(p, (d, ''success'', info)) \<in> set (outcomes r)")
        case True
        then show ?thesis by simp
      next
        case False
        with old have new: "(p, (d, ''success'', info)) = (f, fst ?res)"
          by (simp add: run_job_outcomes)
        then have ok: "fst (snd (fst ?res)) = ''success''"
          by (metis fst_conv snd_conv)
        from new have pf: "p = f" and dres: "fst (fst ?res) = d"
          by (metis fst_conv snd_conv)+
        from convert_success_exists [OF c ok] have
          "d = Some (plan_wav_path sys self p (output_directory self))"
          and "path_exists sys (fst (sys_state ?r1)) (plan_wav_path sys self p (output_directory self))"
          using pf dres by (simp_all add: run_job_outcomes)
        with loop_keeps [OF c, of ?r1] True show ?thesis by simp
      qed
    next
      assume "d = Some (plan_wav_path sys self p (output_directory self))
        \<and> path_exists sys
             (fst (sys_state (conversion_loop sys self running bd trim (Suc i) files ?r1)))
             (plan_wav_path sys self p (output_directory self))"
      with True show ?thesis by simp
    qed
  qed
qed

lemma loop_skips_existing:
  assumes c: "adapter_contract sys" and ow: "\<not> overwrite_var self"
  shows "path_exists sys (fst (sys_state r)) (plan_wav_path sys self p (output_directory self)) \<Longrightarrow>
     (p, res) \<in> set (outcomes (conversion_loop sys self running bd trim i files r)) \<Longrightarrow>
     (p, res) \<in> set (outcomes r)
     \<or> res = (Some (plan_wav_path sys self p (output_directory self)),
               ''skipped (already exists)'', [])"
proof (induction files arbitrary: i r)
  case Nil
  then show ?case by simp
next
  case (Cons f files)
  show ?case
  proof (cases "running i")
    case False
    with Cons.prems show ?thesis by simp
  next
    case True
    let ?r0 = "record_poll True r"
    let ?r1 = "run_job sys self bd trim i f ?r0"
    have e0: "path_exists sys (fst (sys_state ?r0))
        (plan_wav_path sys self p (output_directory self))"
      using Cons.prems(1) by simp
    have e1: "path_exists sys (fst (sys_state ?r1))
        (plan_wav_path sys self p (output_directory self))"
      by (rule run_job_keeps [OF c e0])
    from True Cons.prems(2) have mem: "(p, res)
        \<in> set (outcomes (conversion_loop sys self running bd trim (Suc i) files ?r1))"
      by simp
    from Cons.IH [OF e1 mem] show ?thesis
    proof
      assume old: "(p, res) \<in> set (outcomes ?r1)"
      show ?thesis
      proof (cases "(p, res) \<in> set (outcomes r)")
        case True
        then show ?thesis by simp
      next
        case False
        with old have new: "(p, res) = (f, fst (convert_caf_to_wav sys self f bd
            (output_directory self) trim (sys_state ?r0)))"
          by (simp add: run_job_outcomes)
        then have pf: "f = p" and r: "res = fst (convert_caf_to_wav sys self f bd
            (output_directory self) trim (sys_state ?r0))"
          by simp_all
        from convert_skips_existing [OF c ow e0, of bd trim] r pf
        show ?thesis by simp
      qed
    next
      assume "res = (Some (plan_wav_path sys self p (output_directory self)),
               ''skipped (already exists)'', [])"
      then show ?thesis by simp
    qed
  qed
qed

text \<open>
  Claim C3, as amended. In the CAF converter with overwrite disabled, and an outside that
  keeps the contract above, every file that the first run reported as \<open>success\<close> and that the
  second run attempts is reported as \<open>skipped (already exists)\<close> with the same output path.
\<close>

theorem second_run_skips_converted_files:
  assumes "adapter_contract sys" and "\<not> overwrite_var self"
    and "r1 = conversion_loop sys self running1 bd1 trim1 0 files1 (start_run s)"
    and "r2 = conversion_loop sys self running2 bd2 trim2 0 files2 (start_run (sys_state r1))"
    and "(p, (d, ''success'', info)) \<in> set (outcomes r1)"
    and "(p, res) \<in> set (outcomes r2)"
  shows "res = (d, ''skipped (already exists)'', [])"
proof -
  from loop_success_exists [OF assms(1), of p d info self running1 bd1 trim1 0 files1 "start_run s"]
    assms(3,5)
  have d: "d = Some (plan_wav_path sys self p (output_directory self))"
    and e: "path_exists sys (fst (sys_state r1)) (plan_wav_path sys self p (output_directory self))"
    by (simp_all add: start_run_def)
  have e': "path_exists sys (fst (sys_state (start_run (sys_state r1))))
      (plan_wav_path sys self p (output_directory self))"
    using e by (simp add: start_run_def)
  from loop_skips_existing [OF assms(1,2) e', of res running2 bd2 trim2 0 files2] assms(4,6)
  show ?thesis by (simp add: d start_run_def)
qed

lemma sim_sys_contract: "adapter_contract (sim_sys (\<lambda>p. None))"
  by (simp add: adapter_contract_def sim_sys_simps)

lemma sim_convert_again:
  "''d/a.wav'' \<in> set w \<Longrightarrow>
   convert_caf_to_wav (sim_sys (\<lambda>p. None)) sim_gui ''d/a.caf'' ''24'' None True (w, tr)
   = ((Some ''d/a.wav'', ''skipped (already exists)'', []), (w, tr))"
  by (simp add: convert_caf_to_wav_def prepare_output_def sim_plan_lower has_output_dir_def
      sim_sys_simps sim_gui_simps Let_def)

lemma sim_first_run:
  "conversion_loop (sim_sys (\<lambda>p. None)) sim_gui (\<lambda>i. True) ''24'' True 0 [''d/a.caf'']
      (start_run ([''d/a.caf''], []))
   = \<lparr>converted_count = 1, skipped_count = 0, error_count = 0, progress_value = 1,
       outcomes = [(''d/a.caf'', Some ''d/a.wav'', ''success'', ''Duration: 00:00:01.00'')],
       cancelled = False,
       sys_state =
         ([''d/a.caf'', ''d/a.wav''],
          [Poll True,
           FFmpeg [''ffmpeg'', ''-i'', ''d/a.caf'', ''-af'',
             ''silenceremove=start_periods=1:start_duration=0:start_threshold=-50dB'',
             ''-acodec'', ''pcm_s24le'', ''-n'', ''d/a.wav'']])\<rparr>"
  by (simp add: sim_gui_simps start_run_def run_job_def record_poll_def sim_convert_new
      count_status_def Let_def)

lemma sim_second_run:
  "conversion_loop (sim_sys (\<lambda>p. None)) sim_gui (\<lambda>i. True) ''24'' True 0 [''d/a.caf'']
      (start_run ([''d/a.caf'', ''d/a.wav''], tr))
   = \<lparr>converted_count = 0, skipped_count = 1, error_count = 0, progress_value = 1,
       outcomes = [(''d/a.caf'', Some ''d/a.wav'', ''skipped (already exists)'', [])],
       cancelled = False,
       sys_state = ([''d/a.caf'', ''d/a.wav''], tr @ [Poll True])\<rparr>"
  by (simp add: sim_gui_simps start_run_def run_job_def record_poll_def sim_convert_again
      count_status_def Let_def)

theorem second_run_skips_converted_files_witness:
  "adapter_contract (sim_sys (\<lambda>p. None)) \<and> \<not> overwrite_var sim_gui
   \<and> outcomes (conversion_loop (sim_sys (\<lambda>p. None)) sim_gui (\<lambda>i. True) ''24'' True 0
         [''d/a.caf''] (start_run ([''d/a.caf''], [])))
     = [(''d/a.caf'', Some ''d/a.wav'', ''success'', ''Duration: 00:00:01.00'')]
   \<and> outcomes (conversion_loop (sim_sys (\<lambda>p. None)) sim_gui (\<lambda>i. True) ''24'' True 0
         [''d/a.caf'']
         (start_run (sys_state (conversion_loop (sim_sys (\<lambda>p. None)) sim_gui (\<lambda>i. True)
            ''24'' True 0 [''d/a.caf''] (start_run ([''d/a.caf''], []))))))
     = [(''d/a.caf'', Some ''d/a.wav'', ''skipped (already exists)'', [])]"
proof -
  have ow: "\<not> overwrite_var sim_gui" by (simp add: sim_gui_simps)
  have run: ?thesis
    using sim_sys_contract ow
    by (simp add: sim_first_run sim_second_run del: conversion_loop.simps)
  have first: "(''d/a.caf'', (Some ''d/a.wav'', ''success'', ''Duration: 00:00:01.00''))
      \<in> set (outcomes (conversion_loop (sim_sys (\<lambda>p. None)) sim_gui (\<lambda>i. True) ''24'' True 0
         [''d/a.caf''] (start_run ([''d/a.caf''], []))))"
    by (simp add: sim_first_run del: conversion_loop.simps)
  have second: "(''d/a.caf'', (Some ''d/a.wav'', ''skipped (already exists)'', []))
      \<in> set (outcomes (conversion_loop (sim_sys (\<lambda>p. None)) sim_gui (\<lambda>i. True) ''24'' True 0
         [''d/a.caf'']
         (start_run (sys_state (conversion_loop (sim_sys (\<lambda>p. None)) sim_gui (\<lambda>i. True)
            ''24'' True 0 [''d/a.caf''] (start_run ([''d/a.caf''], [])))))))"
    by (simp add: sim_first_run sim_second_run del: conversion_loop.simps)
  from second_run_skips_converted_files [OF sim_sys_contract ow refl refl first second]
  show ?thesis by (rule_tac run)
qed

lemma sim_wav_after_eq:
  "sim_wav_world @ [(''d/24bit/a.wav'', ''PCM_24'', [5, 7], 48000),
                (''d/16bit/a.wav'', ''PCM_16'', [5, 7], 48000)] = sim_wav_after"
  by (simp add: sim_wav_world_def sim_wav_after_def)

lemma sim_wav_find_after:
  "find_wav_files sim_wav sim_wav_after ''d'' False = Inr [''d/a.wav'', ''d/b.wav'']"
  by (simp add: find_wav_files_def sim_wav_simps sim_wav_after_def path_defs)

lemma sim_wav_filter_after:
  "filter_32bit sim_wav [''d/a.wav'', ''d/b.wav''] (sim_wav_after, [])
     = ([''d/a.wav''], (sim_wav_after, [SfInfo ''d/a.wav'', SfInfo ''d/b.wav'']))"
  by (simp add: get_bit_depth_def sim_wav_simps sim_wav_after_def subtype_bits_def)

lemma sim_wav_convert_24_after:
  "convert_file sim_wav ''d/a.wav'' ''d/24bit/a.wav'' 24 (sim_wav_after, tr)
    = (True,
       ([(''d/a.wav'', ''FLOAT'', [5, 7], 48000), (''d/b.wav'', ''PCM_16'', [3], 44100),
         (''d/16bit/a.wav'', ''PCM_16'', [5, 7], 48000),
         (''d/24bit/a.wav'', ''PCM_24'', [5, 7], 48000)],
        tr @ [SfRead ''d/a.wav'', WMakeDirs ''d/24bit'', SfWrite ''d/24bit/a.wav'' ''PCM_24'']))"
  by (simp add: convert_file_def write_output_def sim_wav_simps sim_wav_paths
      sim_wav_after_def Let_def)

lemma sim_wav_convert_16_after:
  "convert_file sim_wav ''d/a.wav'' ''d/16bit/a.wav'' 16
      ([(''d/a.wav'', ''FLOAT'', [5, 7], 48000), (''d/b.wav'', ''PCM_16'', [3], 44100),
         (''d/16bit/a.wav'', ''PCM_16'', [5, 7], 48000),
         (''d/24bit/a.wav'', ''PCM_24'', [5, 7], 48000)], tr)
    = (True, (sim_wav_after,
        tr @ [SfRead ''d/a.wav'', WMakeDirs ''d/16bit'', SfWrite ''d/16bit/a.wav'' ''PCM_16'']))"
  by (simp add: convert_file_def write_output_def sim_wav_simps sim_wav_paths
      sim_wav_after_def Let_def)

lemma sim_wav_rerun:
  "fst (process_files sim_wav sim_wav_gui (sim_wav_after, []))
   = Processed [''d/a.wav'']
       \<lparr>total_conversions = 2, current_conversion = 2,
        conversions = [(''d/a.wav'', ''d/24bit/a.wav'', 24, True),
                       (''d/a.wav'', ''d/16bit/a.wav'', 16, True)],
        wav_state =
          (sim_wav_after,
           [SfInfo ''d/a.wav'', SfInfo ''d/b.wav'', SfRead ''d/a.wav'', WMakeDirs ''d/24bit'',
            SfWrite ''d/24bit/a.wav'' ''PCM_24'', SfRead ''d/a.wav'', WMakeDirs ''d/16bit'',
            SfWrite ''d/16bit/a.wav'' ''PCM_16''])\<rparr>"
  by (simp add: process_files_def sim_wav_gui_simps sim_wav_find_after sim_wav_filter_after
      convert_to_def sim_wav_paths sim_wav_convert_24_after sim_wav_convert_16_after Let_def
      del: filter_32bit.simps)

lemma sim_wav_first:
  "fst (process_files sim_wav sim_wav_gui (sim_wav_world, []))
   = Processed [''d/a.wav'']
       \<lparr>total_conversions = 2, current_conversion = 2,
        conversions = [(''d/a.wav'', ''d/24bit/a.wav'', 24, True),
                       (''d/a.wav'', ''d/16bit/a.wav'', 16, True)],
        wav_state =
          (sim_wav_after,
           [SfInfo ''d/a.wav'', SfInfo ''d/b.wav'', SfRead ''d/a.wav'', WMakeDirs ''d/24bit'',
            SfWrite ''d/24bit/a.wav'' ''PCM_24'', SfRead ''d/a.wav'', WMakeDirs ''d/16bit'',
            SfWrite ''d/16bit/a.wav'' ''PCM_16''])\<rparr>"
  unfolding sim_wav_after_eq [symmetric] by (simp add: sim_wav_run)

text \<open>
  Claim C3 as stated fails for the bit depth converter: it has no overwrite option and no
  existence check, and a second run over the same folder converts the same file again.
\<close>

theorem bit_depth_rerun_converts_again:
  "fst (process_files sim_wav sim_wav_gui (sim_wav_world, []))
   = Processed [''d/a.wav'']
       \<lparr>total_conversions = 2, current_conversion = 2,
        conversions = [(''d/a.wav'', ''d/24bit/a.wav'', 24, True),
                       (''d/a.wav'', ''d/16bit/a.wav'', 16, True)],
        wav_state =
          (sim_wav_after,
           [SfInfo ''d/a.wav'', SfInfo ''d/b.wav'', SfRead ''d/a.wav'', WMakeDirs ''d/24bit'',
            SfWrite ''d/24bit/a.wav'' ''PCM_24'', SfRead ''d/a.wav'', WMakeDirs ''d/16bit'',
            SfWrite ''d/16bit/a.wav'' ''PCM_16''])\<rparr>
   \<and> fst (process_files sim_wav sim_wav_gui (sim_wav_after, []))
   = Processed [''d/a.wav'']
       \<lparr>total_conversions = 2, current_conversion = 2,
        conversions = [(''d/a.wav'', ''d/24bit/a.wav'', 24, True),
                       (''d/a.wav'', ''d/16bit/a.wav'', 16, True)],
        wav_state =
          (sim_wav_after,
           [SfInfo ''d/a.wav'', SfInfo ''d/b.wav'', SfRead ''d/a.wav'', WMakeDirs ''d/24bit'',
            SfWrite ''d/24bit/a.wav'' ''PCM_24'', SfRead ''d/a.wav'', WMakeDirs ''d/16bit'',
            SfWrite ''d/16bit/a.wav'' ''PCM_16''])\<rparr>"
  using sim_wav_first sim_wav_rerun by (rule conjI)

section \<open>Properties of the path functions\<close>

lemma rfind_absent: "c \<notin> set s \<Longrightarrow> rfind c s = - 1"
  by (simp add: rfind_def)

lemma rfind_last_occurrence: "c \<notin> set b \<Longrightarrow> rfind c (a @ c # b) = int (length a)"
proof -
  assume nb: "c \<notin> set b"
  have "takeWhile (\<lambda>x. x \<noteq> c) (rev b @ c # rev a) = rev b"
    using nb by (simp add: takeWhile_tail takeWhile_eq_all_conv) auto
  then show ?thesis by (simp add: rfind_def)
qed

lemma rfind_decomp:
  assumes "c \<in> set s"
  shows "\<exists>a b. s = a @ c # b \<and> c \<notin> set b \<and> rfind c s = int (length a)"
proof -
  from split_list_last [OF assms] obtain a b where s: "s = a @ c # b" and nb: "c \<notin> set b"
    by blast
  with rfind_last_occurrence [OF nb, of a] show ?thesis by blast
qed

lemma rfind_append_tail: "c \<notin> set t \<Longrightarrow> rfind c (s @ t) = rfind c s"
proof (cases "c \<in> set s")
  case False
  assume "c \<notin> set t"
  with False show ?thesis by (simp add: rfind_absent)
next
  case True
  assume nt: "c \<notin> set t"
  from rfind_decomp [OF True] obtain a b where s: "s = a @ c # b" and nb: "c \<notin> set b"
      and r: "rfind c s = int (length a)" by blast
  have "rfind c (a @ c # (b @ t)) = int (length a)"
    using nb nt by (intro rfind_last_occurrence) simp
  with s r show ?thesis by simp
qed

lemma rfind_take: "rfind c p < int n \<Longrightarrow> rfind c (take n p) = rfind c p"
proof (cases "c \<in> set p")
  case False
  then have "c \<notin> set (take n p)" by (meson in_set_takeD)
  with False show ?thesis by (simp add: rfind_absent)
next
  case True
  assume lt: "rfind c p < int n"
  from rfind_decomp [OF True] obtain a b where p: "p = a @ c # b" and nb: "c \<notin> set b"
      and r: "rfind c p = int (length a)" by blast
  from lt r have an: "length a < n" by simp
  then have tk: "take n p = a @ c # take (n - length a - 1) b"
    by (simp add: p take_Cons')
  have "c \<notin> set (take (n - length a - 1) b)"
    using nb by (meson in_set_takeD)
  then have "rfind c (a @ c # take (n - length a - 1) b) = int (length a)"
    by (rule rfind_last_occurrence)
  with tk r show ?thesis by simp
qed

lemma rfind_bounds: "- 1 \<le> rfind c s \<and> rfind c s < int (length s)"
proof (cases "c \<in> set s")
  case False
  then show ?thesis by (simp add: rfind_absent)
next
  case True
  from rfind_decomp [OF True] obtain a b where "s = a @ c # b" "rfind c s = int (length a)"
    by blast
  then show ?thesis by simp
qed

lemma dirname_head:
  "rfind CHR ''/'' q = rfind CHR ''/'' p \<Longrightarrow>
   take (nat (rfind CHR ''/'' p + 1)) q = take (nat (rfind CHR ''/'' p + 1)) p \<Longrightarrow>
   dirname q = dirname p"
  by (simp add: dirname_def)

lemma splitext_joins: "fst (splitext p) @ snd (splitext p) = p"
  by (simp add: splitext_def Let_def)

lemma endswith_append: "endswith (s @ t) t"
proof -
  have "\<And>a b. startswith (a @ b) a"
  proof -
    fix a b :: string
    show "startswith (a @ b) a" by (induction a) simp_all
  qed
  then show ?thesis by (simp add: endswith_def)
qed

lemma splitext_root_cases:
  "fst (splitext p) = p
   \<or> (fst (splitext p) = take (nat (rfind CHR ''.'' p)) p
      \<and> rfind CHR ''/'' p < rfind CHR ''.'' p)"
proof (cases "rfind CHR ''/'' p < rfind CHR ''.'' p
    \<and> skip_dots p (nat (rfind CHR ''/'' p + 1)) (nat (rfind CHR ''.'' p))")
  case True
  then have "splitext p = (take (nat (rfind CHR ''.'' p)) p, drop (nat (rfind CHR ''.'' p)) p)"
    unfolding splitext_def Let_def by (rule if_P)
  with True show ?thesis by simp
next
  case False
  then have "splitext p = (p, [])"
    unfolding splitext_def Let_def by (rule if_not_P)
  then show ?thesis by simp
qed

lemma take_append_short: "n \<le> length p \<Longrightarrow> take n (p @ e) = take n p"
  by simp

lemma take_take_append: "n \<le> d \<Longrightarrow> d \<le> length p \<Longrightarrow> take n (take d p @ e) = take n p"
  by (simp add: min_absorb1)

lemma dirname_replace_ext:
  assumes "CHR ''/'' \<notin> set ext"
  shows "dirname (fst (splitext p) @ ext) = dirname p"
proof -
  let ?sep = "rfind CHR ''/'' p"
  have b: "- 1 \<le> ?sep \<and> ?sep < int (length p)" by (rule rfind_bounds)
  from splitext_root_cases [of p] show ?thesis
  proof
    assume root: "fst (splitext p) = p"
    have r: "rfind CHR ''/'' (p @ ext) = ?sep"
      by (rule rfind_append_tail [OF assms])
    have "nat (?sep + 1) \<le> length p"
      using b by linarith
    then have t: "take (nat (?sep + 1)) (p @ ext) = take (nat (?sep + 1)) p"
      by (rule take_append_short)
    show ?thesis unfolding root by (rule dirname_head [OF r t])
  next
    assume h: "fst (splitext p) = take (nat (rfind CHR ''.'' p)) p
      \<and> rfind CHR ''/'' p < rfind CHR ''.'' p"
    let ?d = "nat (rfind CHR ''.'' p)"
    have bd: "- 1 \<le> rfind CHR ''.'' p \<and> rfind CHR ''.'' p < int (length p)"
      by (rule rfind_bounds)
    from h b have lt: "?sep < int ?d" by linarith
    have r1: "rfind CHR ''/'' (take ?d p) = ?sep"
      by (rule rfind_take [OF lt])
    have r: "rfind CHR ''/'' (take ?d p @ ext) = ?sep"
      using rfind_append_tail [OF assms, of "take ?d p"] r1 by (rule trans)
    have le: "nat (?sep + 1) \<le> ?d" using lt b by linarith
    have dl: "?d \<le> length p" using bd by linarith
    have t: "take (nat (?sep + 1)) (take ?d p @ ext) = take (nat (?sep + 1)) p"
      using le dl by (rule take_take_append)
    from h have root: "fst (splitext p) = take ?d p" by (rule conjunct1)
    show ?thesis unfolding root by (rule dirname_head [OF r t])
  qed
qed

lemma startswith_sep: "startswith b ''/'' = (\<exists>t. b = CHR ''/'' # t)"
  by (cases b) auto

lemma endswith_sep: "endswith a ''/'' = (a \<noteq> [] \<and> last a = CHR ''/'')"
proof (cases "rev a")
  case Nil
  then show ?thesis by (simp add: endswith_def)
next
  case (Cons c t)
  then have a: "a = rev t @ [c]" by (metis rev.simps(2) rev_rev_ident)
  with Cons show ?thesis by (simp add: endswith_def)
qed

lemma basename_no_sep: "CHR ''/'' \<notin> set (basename f)"
proof (cases "CHR ''/'' \<in> set f")
  case False
  then show ?thesis by (simp add: basename_def rfind_absent)
next
  case True
  from rfind_decomp [OF True] obtain a b where f: "f = a @ CHR ''/'' # b"
      and nb: "CHR ''/'' \<notin> set b" and r: "rfind CHR ''/'' f = int (length a)" by blast
  have "nat (int (length a) + 1) = Suc (length a)" by simp
  then have "basename f = b" unfolding basename_def r by (simp add: f)
  with nb show ?thesis by simp
qed

lemma path_join_relative:
  "\<not> startswith b ''/'' \<Longrightarrow> path_join a b = a @ b \<or> path_join a b = a @ ''/'' @ b"
  by (simp add: path_join_def)

lemma path_join_after_name:
  assumes x: "x \<noteq> []" "last x \<noteq> CHR ''/''" and n: "CHR ''/'' \<notin> set name"
  shows "path_join x name = x @ CHR ''/'' # name"
proof -
  have "\<not> startswith name ''/''" using n by (auto simp add: startswith_sep)
  moreover have "\<not> endswith x ''/''" using x by (simp add: endswith_sep)
  ultimately show ?thesis using x by (simp add: path_join_def)
qed

lemma rstrip_sep_one: "x \<noteq> [] \<Longrightarrow> last x \<noteq> CHR ''/'' \<Longrightarrow> rstrip_sep (x @ ''/'') = x"
proof -
  assume x: "x \<noteq> []" "last x \<noteq> CHR ''/''"
  then have "hd (rev x) \<noteq> CHR ''/''" by (simp add: hd_rev)
  moreover from x have "rev x \<noteq> []" by simp
  ultimately have "dropWhile (\<lambda>c. c = CHR ''/'') (rev x) = rev x"
    by (cases "rev x") simp_all
  then show ?thesis by (simp add: rstrip_sep_def)
qed

lemma dirname_basename_of_joined:
  assumes x: "x \<noteq> []" "last x \<noteq> CHR ''/''" and n: "CHR ''/'' \<notin> set name"
  shows "dirname (x @ CHR ''/'' # name) = x" and "basename (x @ CHR ''/'' # name) = name"
proof -
  have r: "rfind CHR ''/'' (x @ CHR ''/'' # name) = int (length x)"
    by (rule rfind_last_occurrence [OF n])
  have k: "nat (int (length x) + 1) = Suc (length x)" by simp
  show "basename (x @ CHR ''/'' # name) = name"
    unfolding basename_def r k by simp
  have head: "take (Suc (length x)) (x @ CHR ''/'' # name) = x @ ''/''" by simp
  have "last x \<in> set (x @ ''/'')" using x by simp
  then have "x @ ''/'' \<noteq> replicate (length (x @ ''/'')) CHR ''/''"
    using x(2) by (metis in_set_replicate)
  then show "dirname (x @ CHR ''/'' # name) = x"
    unfolding dirname_def r k head Let_def using x by (simp add: rstrip_sep_one)
qed

lemma subdir_join_shape:
  assumes "sub \<noteq> []" "last sub \<noteq> CHR ''/''" "\<not> startswith sub ''/''"
  shows "path_join d sub \<noteq> [] \<and> last (path_join d sub) \<noteq> CHR ''/''"
  using path_join_relative [OF assms(3), of d] assms(1,2) by auto

lemma destination_in_subdir:
  assumes "sub \<noteq> []" "last sub \<noteq> CHR ''/''" "\<not> startswith sub ''/''"
  shows "dirname (path_join (path_join (dirname f) sub) (basename f)) = path_join (dirname f) sub"
    and "basename (path_join (path_join (dirname f) sub) (basename f)) = basename f"
proof -
  let ?x = "path_join (dirname f) sub"
  have x: "?x \<noteq> []" "last ?x \<noteq> CHR ''/''"
    using subdir_join_shape [OF assms, of "dirname f"] by simp_all
  have j: "path_join ?x (basename f) = ?x @ CHR ''/'' # basename f"
    by (rule path_join_after_name [OF x basename_no_sep])
  show "dirname (path_join ?x (basename f)) = ?x"
    unfolding j by (rule dirname_basename_of_joined(1) [OF x basename_no_sep])
  show "basename (path_join ?x (basename f)) = basename f"
    unfolding j by (rule dirname_basename_of_joined(2) [OF x basename_no_sep])
qed

lemma path_join_append_ext:
  "CHR ''/'' \<notin> set ext \<Longrightarrow> ext \<noteq> [] \<Longrightarrow> path_join d (x @ ext) = path_join d x @ ext"
  by (cases x; cases ext) (auto simp add: path_join_def)

section \<open>Planned destinations\<close>

lemma plan_without_output_dir:
  "\<not> has_output_dir out \<Longrightarrow> plan_wav_path sys self p out = fst (splitext p) @ ''.wav''"
  by (simp add: plan_wav_path_def has_output_dir_def split: option.splits)

lemma plan_with_output_dir:
  "out = Some d \<Longrightarrow> d \<noteq> [] \<Longrightarrow>
   plan_wav_path sys self p out
     = path_join d (fst (splitext (relpath sys p (selected_directory self))) @ ''.wav'')"
  by (simp add: plan_wav_path_def Let_def)

lemma wav_ext_no_sep: "CHR ''/'' \<notin> set ''.wav''" "''.wav'' \<noteq> []"
  by simp_all

lemma plan_ends_with_wav: "endswith (plan_wav_path sys self p out) ''.wav''"
proof (cases "has_output_dir out")
  case False
  then show ?thesis by (simp add: plan_without_output_dir endswith_append)
next
  case True
  then obtain d where out: "out = Some d" and d: "d \<noteq> []"
    by (auto simp add: has_output_dir_def split: option.splits)
  show ?thesis
    unfolding plan_with_output_dir [OF out d] path_join_append_ext [OF wav_ext_no_sep]
    by (rule endswith_append)
qed

lemma convert_to_destination:
  "fst (snd (last (conversions (convert_to wsys f sub bits r))))
     = path_join (path_join (dirname f) sub) (basename f)"
  by (simp add: convert_to_def Let_def)

lemma subdir_names:
  "''24bit'' \<noteq> []" "last ''24bit'' \<noteq> CHR ''/''" "\<not> startswith ''24bit'' ''/''"
  "''16bit'' \<noteq> []" "last ''16bit'' \<noteq> CHR ''/''" "\<not> startswith ''16bit'' ''/''"
  by simp_all

text \<open>
  Claim C9. The planned destination is a function of the source path and the configuration.
  In the CAF converter with an output directory it is the path relative to the selected
  directory, without its extension and with \<open>.wav\<close>, joined to the output directory; without
  one it is the source path without its extension and with \<open>.wav\<close>, in the directory of the
  source. It always ends in \<open>.wav\<close>. The bit depth converter writes the file's own name into
  the subdirectory \<open>24bit\<close> or \<open>16bit\<close> of the source's directory, and the command-line
  converter writes the stem with \<open>.wav\<close> into the subdirectory \<open>32bit_wav\<close> of the
  source's parent.
\<close>

theorem planned_destination:
  "(\<forall>d. out = Some d \<and> d \<noteq> [] \<longrightarrow>
       plan_wav_path sys self p out
         = path_join d (fst (splitext (relpath sys p (selected_directory self))) @ ''.wav''))
   \<and> (\<not> has_output_dir out \<longrightarrow>
         plan_wav_path sys self p out = fst (splitext p) @ ''.wav''
         \<and> dirname (plan_wav_path sys self p out) = dirname p)
   \<and> endswith (plan_wav_path sys self p out) ''.wav''
   \<and> fst (splitext p) @ snd (splitext p) = p
   \<and> (sub = ''24bit'' \<or> sub = ''16bit'' \<longrightarrow>
         dirname (fst (snd (last (conversions (convert_to wsys f sub bits r)))))
           = path_join (dirname f) sub
         \<and> basename (fst (snd (last (conversions (convert_to wsys f sub bits r)))))
           = basename f)
   \<and> butlast (cli_out_path caf) = butlast caf @ [''32bit_wav'']
   \<and> last (cli_out_path caf) = stem (last caf) @ ''.wav''"
proof -
  have a: "\<forall>d. out = Some d \<and> d \<noteq> [] \<longrightarrow>
       plan_wav_path sys self p out
         = path_join d (fst (splitext (relpath sys p (selected_directory self))) @ ''.wav'')"
    using plan_with_output_dir by blast
  have b: "\<not> has_output_dir out \<longrightarrow>
         plan_wav_path sys self p out = fst (splitext p) @ ''.wav''
         \<and> dirname (plan_wav_path sys self p out) = dirname p"
    using dirname_replace_ext [OF wav_ext_no_sep(1), of p]
    by (simp add: plan_without_output_dir)
  have c: "sub = ''24bit'' \<or> sub = ''16bit'' \<longrightarrow>
         dirname (fst (snd (last (conversions (convert_to wsys f sub bits r)))))
           = path_join (dirname f) sub
         \<and> basename (fst (snd (last (conversions (convert_to wsys f sub bits r)))))
           = basename f"
    unfolding convert_to_destination
    using destination_in_subdir [OF subdir_names(1,2,3), of f]
      destination_in_subdir [OF subdir_names(4,5,6), of f]
    by blast
  have d: "butlast (cli_out_path caf) = butlast caf @ [''32bit_wav'']
      \<and> last (cli_out_path caf) = stem (last caf) @ ''.wav''"
    by (simp add: cli_out_path_def Let_def butlast_append)
  from a b c d plan_ends_with_wav [of sys self p out] splitext_joins [of p]
  show ?thesis by blast
qed

lemma sim_plan_rerooted:
  "plan_wav_path (sim_sys f) sim_gui ''d/sub/a.caf'' (Some ''out'') = ''out/sub/a.wav''"
  by (simp add: plan_wav_path_def sim_sys_simps sim_gui_simps path_defs Let_def)

lemma sim_plan_beside:
  "plan_wav_path (sim_sys f) sim_gui ''d/sub/a.caf'' None = ''d/sub/a.wav''"
  "dirname ''d/sub/a.wav'' = ''d/sub''" "dirname ''d/sub/a.caf'' = ''d/sub''"
  by (simp_all add: plan_wav_path_def path_defs)

lemma sim_cli_plan: "cli_out_path [''d'', ''a.caf''] = [''d'', ''32bit_wav'', ''a.wav'']"
  by (simp add: cli_out_path_def stem_def rfind_def Let_def)

theorem planned_destination_witness:
  "plan_wav_path (sim_sys (\<lambda>p. None)) sim_gui ''d/sub/a.caf'' (Some ''out'') = ''out/sub/a.wav''
   \<and> plan_wav_path (sim_sys (\<lambda>p. None)) sim_gui ''d/sub/a.caf'' None = ''d/sub/a.wav''
   \<and> dirname ''d/sub/a.wav'' = dirname ''d/sub/a.caf''
   \<and> path_join (path_join (dirname ''d/a.wav'') ''24bit'') (basename ''d/a.wav'')
       = ''d/24bit/a.wav''
   \<and> dirname ''d/24bit/a.wav'' = ''d/24bit''
   \<and> cli_out_path [''d'', ''a.caf''] = [''d'', ''32bit_wav'', ''a.wav'']"
proof -
  have run: ?thesis
    by (simp add: sim_plan_rerooted sim_plan_beside sim_wav_paths sim_cli_plan)
  from planned_destination [where sys = "sim_sys (\<lambda>p. None)" and self = sim_gui
      and p = "''d/sub/a.caf''" and out = "Some ''out''" and sub = "''24bit''"
      and caf = "[''d'', ''a.caf'']"]
  show ?thesis by (rule_tac run)
qed




end
